theory Spec2Isabelle
  imports Main "HOL-Library.Word"
begin

section \<open>Column types\<close>

text \<open>
  The schema of \<^verbatim>\<open>supabase/migrations\<close> uses three scalar column types besides
  \<^verbatim>\<open>boolean\<close>. A \<^verbatim>\<open>uuid\<close> is a 128-bit value compared as an unsigned number
  (this is the order \<^verbatim>\<open>LEAST\<close> and \<^verbatim>\<open>GREATEST\<close> use), a \<^verbatim>\<open>timestamptz\<close> is a count
  of microseconds, and a \<^verbatim>\<open>text\<close> is a sequence of characters, kept here as the list of
  their code points so that \<^verbatim>\<open>char_length\<close> is the length of the list.
\<close>

type_synonym uuid = "128 word"
type_synonym timestamptz = int
type_synonym pg_text = "nat list"

definition text_of :: "string \<Rightarrow> pg_text" where
  "text_of s = map of_char s"

definition char_length :: "pg_text \<Rightarrow> nat" where
  "char_length t = length t"

text \<open>
  What an \<^verbatim>\<open>INSERT\<close> supplies for a nullable column: nothing (the column's
  \<^verbatim>\<open>DEFAULT\<close> applies, or \<^verbatim>\<open>NULL\<close> when it has none), or an explicit value, which may be
  \<^verbatim>\<open>NULL\<close>. Stored nullable columns are options, \<open>None\<close> standing for \<^verbatim>\<open>NULL\<close>.
\<close>

datatype 'a col_in = Omitted | Given "'a option"

fun resolve :: "'a option \<Rightarrow> 'a col_in \<Rightarrow> 'a option" where
  "resolve d Omitted = d"
| "resolve d (Given v) = v"

text \<open>The two values a statement takes from its environment: \<^verbatim>\<open>now()\<close> and \<^verbatim>\<open>gen_random_uuid()\<close>.\<close>

record env =
  now :: timestamptz
  gen_random_uuid :: uuid

datatype db_error = CheckViolation | UniqueViolation | ForeignKeyViolation | RlsViolation

section \<open>Tables\<close>

text \<open>
  One record per \<^verbatim>\<open>CREATE TABLE\<close> of \<^verbatim>\<open>20251115160152_create_social_app_schema.sql\<close>,
  one field per column, named table\_column. A column declared \<^verbatim>\<open>NOT NULL\<close> (or
  \<^verbatim>\<open>PRIMARY KEY\<close>) holds a value; every other column is an option.
\<close>

record profiles_row =
  profiles_id :: uuid
  profiles_username :: pg_text
  profiles_full_name :: "pg_text option"
  profiles_bio :: "pg_text option"
  profiles_avatar_url :: "pg_text option"
  profiles_cover_photo_url :: "pg_text option"
  profiles_location :: "pg_text option"
  profiles_website :: "pg_text option"
  profiles_created_at :: "timestamptz option"
  profiles_updated_at :: "timestamptz option"

record posts_row =
  posts_id :: uuid
  posts_user_id :: uuid
  posts_content :: pg_text
  posts_media_urls :: "pg_text list option"
  posts_created_at :: "timestamptz option"
  posts_updated_at :: "timestamptz option"
  posts_is_edited :: "bool option"

record likes_row =
  likes_id :: uuid
  likes_user_id :: uuid
  likes_post_id :: uuid
  likes_created_at :: "timestamptz option"

record comments_row =
  comments_id :: uuid
  comments_user_id :: uuid
  comments_post_id :: uuid
  comments_parent_id :: "uuid option"
  comments_content :: pg_text
  comments_created_at :: "timestamptz option"
  comments_updated_at :: "timestamptz option"
  comments_is_edited :: "bool option"

record follows_row =
  follows_id :: uuid
  follows_follower_id :: uuid
  follows_following_id :: uuid
  follows_created_at :: "timestamptz option"

record conversations_row =
  conversations_id :: uuid
  conversations_user1_id :: uuid
  conversations_user2_id :: uuid
  conversations_last_message_at :: "timestamptz option"
  conversations_created_at :: "timestamptz option"

record messages_row =
  messages_id :: uuid
  messages_conversation_id :: uuid
  messages_sender_id :: uuid
  messages_content :: pg_text
  messages_is_read :: "bool option"
  messages_created_at :: "timestamptz option"

record notifications_row =
  notifications_id :: uuid
  notifications_user_id :: uuid
  notifications_actor_id :: uuid
  notifications_type :: pg_text
  notifications_post_id :: "uuid option"
  notifications_comment_id :: "uuid option"
  notifications_is_read :: "bool option"
  notifications_created_at :: "timestamptz option"

text \<open>
  The database: the eight tables, and the identifiers of \<^verbatim>\<open>auth.users\<close>, the platform's
  table that \<^verbatim>\<open>profiles.id\<close> references.
\<close>

record db =
  auth_users :: "uuid list"
  profiles :: "profiles_row list"
  posts :: "posts_row list"
  likes :: "likes_row list"
  comments :: "comments_row list"
  follows :: "follows_row list"
  conversations :: "conversations_row list"
  messages :: "messages_row list"
  notifications :: "notifications_row list"

definition empty_db :: db where
  "empty_db = \<lparr>auth_users = [], profiles = [], posts = [], likes = [], comments = [],
     follows = [], conversations = [], messages = [], notifications = []\<rparr>"

section \<open>Constraints\<close>

text \<open>\<^verbatim>\<open>CONSTRAINT username_length CHECK (char_length(username) >= 3 AND char_length(username) <= 30)\<close>\<close>

definition username_length :: "pg_text \<Rightarrow> bool" where
  "username_length username \<longleftrightarrow> char_length username \<ge> 3 \<and> char_length username \<le> 30"

text \<open>
  \<^verbatim>\<open>CONSTRAINT username_format CHECK (username ~ '^[a-zA-Z0-9_]+$')\<close>. The bracket
  expression holds the ranges a-z, A-Z, 0-9 (ranges of code points) and the underscore;
  the anchored \<^verbatim>\<open>+\<close> asks for one or more such characters and nothing else.
\<close>

definition username_char :: "nat \<Rightarrow> bool" where
  "username_char c \<longleftrightarrow> (97 \<le> c \<and> c \<le> 122) \<or> (65 \<le> c \<and> c \<le> 90) \<or> (48 \<le> c \<and> c \<le> 57) \<or> c = 95"

definition username_format :: "pg_text \<Rightarrow> bool" where
  "username_format username \<longleftrightarrow> username \<noteq> [] \<and> list_all username_char username"

text \<open>\<^verbatim>\<open>content_length\<close> on posts, \<^verbatim>\<open>comment_length\<close> on comments, \<^verbatim>\<open>message_length\<close> on messages.\<close>

definition content_length :: "pg_text \<Rightarrow> bool" where
  "content_length content \<longleftrightarrow> char_length content > 0 \<and> char_length content \<le> 5000"

definition comment_length :: "pg_text \<Rightarrow> bool" where
  "comment_length content \<longleftrightarrow> char_length content > 0 \<and> char_length content \<le> 2000"

definition message_length :: "pg_text \<Rightarrow> bool" where
  "message_length content \<longleftrightarrow> char_length content > 0 \<and> char_length content \<le> 2000"

text \<open>\<^verbatim>\<open>CONSTRAINT no_self_follow CHECK (follower_id != following_id)\<close>\<close>

definition no_self_follow :: "follows_row \<Rightarrow> bool" where
  "no_self_follow r \<longleftrightarrow> follows_follower_id r \<noteq> follows_following_id r"

text \<open>\<^verbatim>\<open>CONSTRAINT different_users CHECK (user1_id != user2_id)\<close>\<close>

definition different_users :: "conversations_row \<Rightarrow> bool" where
  "different_users r \<longleftrightarrow> conversations_user1_id r \<noteq> conversations_user2_id r"

text \<open>
  The key of \<^verbatim>\<open>conversations_users_idx\<close>:
  \<^verbatim>\<open>(LEAST(user1_id, user2_id), GREATEST(user1_id, user2_id))\<close>.
\<close>

definition conversations_users_idx :: "conversations_row \<Rightarrow> uuid \<times> uuid" where
  "conversations_users_idx r =
     (min (conversations_user1_id r) (conversations_user2_id r),
      max (conversations_user1_id r) (conversations_user2_id r))"

text \<open>\<^verbatim>\<open>CHECK (type IN ('follow', 'like', 'comment', 'mention', 'message'))\<close>\<close>

definition valid_notification_type :: "pg_text \<Rightarrow> bool" where
  "valid_notification_type t \<longleftrightarrow>
     t \<in> set [text_of ''follow'', text_of ''like'', text_of ''comment'',
              text_of ''mention'', text_of ''message'']"

text \<open>
  A foreign-key column that may be \<^verbatim>\<open>NULL\<close> is checked only when it holds a value.
\<close>

definition fk_ok :: "uuid option \<Rightarrow> uuid list \<Rightarrow> bool" where
  "fk_ok v keys = (case v of None \<Rightarrow> True | Some k \<Rightarrow> k \<in> set keys)"

section \<open>Inserts\<close>

text \<open>
  What an \<^verbatim>\<open>INSERT\<close> supplies, per table. A \<^verbatim>\<open>NOT NULL\<close> column without a default
  must be given; the key \<open>id\<close> with its default \<^verbatim>\<open>gen_random_uuid()\<close> may be left out
  (\<open>None\<close>); a nullable column is a \<^typ>\<open>'a col_in\<close>. A row that would put
  \<^verbatim>\<open>NULL\<close> into a \<^verbatim>\<open>NOT NULL\<close> column is always refused and is not among these
  inputs.
\<close>

record profiles_insert =
  profiles_id_in :: uuid
  profiles_username_in :: pg_text
  profiles_full_name_in :: "pg_text col_in"
  profiles_bio_in :: "pg_text col_in"
  profiles_avatar_url_in :: "pg_text col_in"
  profiles_cover_photo_url_in :: "pg_text col_in"
  profiles_location_in :: "pg_text col_in"
  profiles_website_in :: "pg_text col_in"
  profiles_created_at_in :: "timestamptz col_in"
  profiles_updated_at_in :: "timestamptz col_in"

record posts_insert =
  posts_id_in :: "uuid option"
  posts_user_id_in :: uuid
  posts_content_in :: pg_text
  posts_media_urls_in :: "pg_text list col_in"
  posts_created_at_in :: "timestamptz col_in"
  posts_updated_at_in :: "timestamptz col_in"
  posts_is_edited_in :: "bool col_in"

record likes_insert =
  likes_id_in :: "uuid option"
  likes_user_id_in :: uuid
  likes_post_id_in :: uuid
  likes_created_at_in :: "timestamptz col_in"

record comments_insert =
  comments_id_in :: "uuid option"
  comments_user_id_in :: uuid
  comments_post_id_in :: uuid
  comments_parent_id_in :: "uuid col_in"
  comments_content_in :: pg_text
  comments_created_at_in :: "timestamptz col_in"
  comments_updated_at_in :: "timestamptz col_in"
  comments_is_edited_in :: "bool col_in"

record follows_insert =
  follows_id_in :: "uuid option"
  follows_follower_id_in :: uuid
  follows_following_id_in :: uuid
  follows_created_at_in :: "timestamptz col_in"

record conversations_insert =
  conversations_id_in :: "uuid option"
  conversations_user1_id_in :: uuid
  conversations_user2_id_in :: uuid
  conversations_last_message_at_in :: "timestamptz col_in"
  conversations_created_at_in :: "timestamptz col_in"

record messages_insert =
  messages_id_in :: "uuid option"
  messages_conversation_id_in :: uuid
  messages_sender_id_in :: uuid
  messages_content_in :: pg_text
  messages_is_read_in :: "bool col_in"
  messages_created_at_in :: "timestamptz col_in"

record notifications_insert =
  notifications_id_in :: "uuid option"
  notifications_user_id_in :: uuid
  notifications_actor_id_in :: uuid
  notifications_type_in :: pg_text
  notifications_post_id_in :: "uuid col_in"
  notifications_comment_id_in :: "uuid col_in"
  notifications_is_read_in :: "bool col_in"
  notifications_created_at_in :: "timestamptz col_in"

text \<open>The key: the given one, or \<^verbatim>\<open>DEFAULT gen_random_uuid()\<close>.\<close>

definition new_id :: "env \<Rightarrow> uuid option \<Rightarrow> uuid" where
  "new_id e v = (case v of None \<Rightarrow> gen_random_uuid e | Some k \<Rightarrow> k)"

text \<open>The row each insert proposes: the given values, the column defaults elsewhere.\<close>

definition profiles_new_row :: "env \<Rightarrow> profiles_insert \<Rightarrow> profiles_row" where
  "profiles_new_row e i =
     \<lparr>profiles_id = profiles_id_in i,
      profiles_username = profiles_username_in i,
      profiles_full_name = resolve (Some []) (profiles_full_name_in i),
      profiles_bio = resolve (Some []) (profiles_bio_in i),
      profiles_avatar_url = resolve (Some []) (profiles_avatar_url_in i),
      profiles_cover_photo_url = resolve (Some []) (profiles_cover_photo_url_in i),
      profiles_location = resolve (Some []) (profiles_location_in i),
      profiles_website = resolve (Some []) (profiles_website_in i),
      profiles_created_at = resolve (Some (now e)) (profiles_created_at_in i),
      profiles_updated_at = resolve (Some (now e)) (profiles_updated_at_in i)\<rparr>"

definition posts_new_row :: "env \<Rightarrow> posts_insert \<Rightarrow> posts_row" where
  "posts_new_row e i =
     \<lparr>posts_id = new_id e (posts_id_in i),
      posts_user_id = posts_user_id_in i,
      posts_content = posts_content_in i,
      posts_media_urls = resolve (Some []) (posts_media_urls_in i),
      posts_created_at = resolve (Some (now e)) (posts_created_at_in i),
      posts_updated_at = resolve (Some (now e)) (posts_updated_at_in i),
      posts_is_edited = resolve (Some False) (posts_is_edited_in i)\<rparr>"

definition likes_new_row :: "env \<Rightarrow> likes_insert \<Rightarrow> likes_row" where
  "likes_new_row e i =
     \<lparr>likes_id = new_id e (likes_id_in i),
      likes_user_id = likes_user_id_in i,
      likes_post_id = likes_post_id_in i,
      likes_created_at = resolve (Some (now e)) (likes_created_at_in i)\<rparr>"

definition comments_new_row :: "env \<Rightarrow> comments_insert \<Rightarrow> comments_row" where
  "comments_new_row e i =
     \<lparr>comments_id = new_id e (comments_id_in i),
      comments_user_id = comments_user_id_in i,
      comments_post_id = comments_post_id_in i,
      comments_parent_id = resolve None (comments_parent_id_in i),
      comments_content = comments_content_in i,
      comments_created_at = resolve (Some (now e)) (comments_created_at_in i),
      comments_updated_at = resolve (Some (now e)) (comments_updated_at_in i),
      comments_is_edited = resolve (Some False) (comments_is_edited_in i)\<rparr>"

definition follows_new_row :: "env \<Rightarrow> follows_insert \<Rightarrow> follows_row" where
  "follows_new_row e i =
     \<lparr>follows_id = new_id e (follows_id_in i),
      follows_follower_id = follows_follower_id_in i,
      follows_following_id = follows_following_id_in i,
      follows_created_at = resolve (Some (now e)) (follows_created_at_in i)\<rparr>"

definition conversations_new_row :: "env \<Rightarrow> conversations_insert \<Rightarrow> conversations_row" where
  "conversations_new_row e i =
     \<lparr>conversations_id = new_id e (conversations_id_in i),
      conversations_user1_id = conversations_user1_id_in i,
      conversations_user2_id = conversations_user2_id_in i,
      conversations_last_message_at = resolve (Some (now e)) (conversations_last_message_at_in i),
      conversations_created_at = resolve (Some (now e)) (conversations_created_at_in i)\<rparr>"

definition messages_new_row :: "env \<Rightarrow> messages_insert \<Rightarrow> messages_row" where
  "messages_new_row e i =
     \<lparr>messages_id = new_id e (messages_id_in i),
      messages_conversation_id = messages_conversation_id_in i,
      messages_sender_id = messages_sender_id_in i,
      messages_content = messages_content_in i,
      messages_is_read = resolve (Some False) (messages_is_read_in i),
      messages_created_at = resolve (Some (now e)) (messages_created_at_in i)\<rparr>"

definition notifications_new_row :: "env \<Rightarrow> notifications_insert \<Rightarrow> notifications_row" where
  "notifications_new_row e i =
     \<lparr>notifications_id = new_id e (notifications_id_in i),
      notifications_user_id = notifications_user_id_in i,
      notifications_actor_id = notifications_actor_id_in i,
      notifications_type = notifications_type_in i,
      notifications_post_id = resolve None (notifications_post_id_in i),
      notifications_comment_id = resolve None (notifications_comment_id_in i),
      notifications_is_read = resolve (Some False) (notifications_is_read_in i),
      notifications_created_at = resolve (Some (now e)) (notifications_created_at_in i)\<rparr>"

text \<open>
  A new account of the platform: a row of \<^verbatim>\<open>auth.users\<close>, whose key is unique.
\<close>

definition signup :: "uuid \<Rightarrow> db \<Rightarrow> db_error + db" where
  "signup u d =
     (if u \<in> set (auth_users d) then Inl UniqueViolation
      else Inr (d\<lparr>auth_users := u # auth_users d\<rparr>))"

text \<open>
  An insert checks the row's \<^verbatim>\<open>CHECK\<close> constraints, then enters it into the unique
  indexes (the primary key, and the table's \<^verbatim>\<open>UNIQUE\<close> constraint or unique index), and
  the foreign keys are checked once the row is in. The first failure aborts the
  statement and is its result.
\<close>

definition insert_profile :: "env \<Rightarrow> profiles_insert \<Rightarrow> db \<Rightarrow> db_error + db" where
  "insert_profile e i d =
     (let r = profiles_new_row e i in
      if \<not> (username_length (profiles_username r) \<and> username_format (profiles_username r))
        then Inl CheckViolation
      else if profiles_id r \<in> set (map profiles_id (profiles d))
            \<or> profiles_username r \<in> set (map profiles_username (profiles d))
        then Inl UniqueViolation
      else if profiles_id r \<notin> set (auth_users d) then Inl ForeignKeyViolation
      else Inr (d\<lparr>profiles := r # profiles d\<rparr>))"

definition insert_post :: "env \<Rightarrow> posts_insert \<Rightarrow> db \<Rightarrow> db_error + db" where
  "insert_post e i d =
     (let r = posts_new_row e i in
      if \<not> content_length (posts_content r) then Inl CheckViolation
      else if posts_id r \<in> set (map posts_id (posts d)) then Inl UniqueViolation
      else if posts_user_id r \<notin> set (map profiles_id (profiles d)) then Inl ForeignKeyViolation
      else Inr (d\<lparr>posts := r # posts d\<rparr>))"

definition insert_like :: "env \<Rightarrow> likes_insert \<Rightarrow> db \<Rightarrow> db_error + db" where
  "insert_like e i d =
     (let r = likes_new_row e i in
      if likes_id r \<in> set (map likes_id (likes d))
         \<or> (likes_user_id r, likes_post_id r)
              \<in> set (map (\<lambda>l. (likes_user_id l, likes_post_id l)) (likes d))
        then Inl UniqueViolation
      else if likes_user_id r \<notin> set (map profiles_id (profiles d))
            \<or> likes_post_id r \<notin> set (map posts_id (posts d))
        then Inl ForeignKeyViolation
      else Inr (d\<lparr>likes := r # likes d\<rparr>))"

definition insert_comment :: "env \<Rightarrow> comments_insert \<Rightarrow> db \<Rightarrow> db_error + db" where
  "insert_comment e i d =
     (let r = comments_new_row e i in
      if \<not> comment_length (comments_content r) then Inl CheckViolation
      else if comments_id r \<in> set (map comments_id (comments d)) then Inl UniqueViolation
      else if comments_user_id r \<notin> set (map profiles_id (profiles d))
            \<or> comments_post_id r \<notin> set (map posts_id (posts d))
            \<or> \<not> fk_ok (comments_parent_id r) (map comments_id (r # comments d))
        then Inl ForeignKeyViolation
      else Inr (d\<lparr>comments := r # comments d\<rparr>))"

definition insert_follow :: "env \<Rightarrow> follows_insert \<Rightarrow> db \<Rightarrow> db_error + db" where
  "insert_follow e i d =
     (let r = follows_new_row e i in
      if \<not> no_self_follow r then Inl CheckViolation
      else if follows_id r \<in> set (map follows_id (follows d))
            \<or> (follows_follower_id r, follows_following_id r)
                 \<in> set (map (\<lambda>f. (follows_follower_id f, follows_following_id f)) (follows d))
        then Inl UniqueViolation
      else if follows_follower_id r \<notin> set (map profiles_id (profiles d))
            \<or> follows_following_id r \<notin> set (map profiles_id (profiles d))
        then Inl ForeignKeyViolation
      else Inr (d\<lparr>follows := r # follows d\<rparr>))"

definition insert_conversation :: "env \<Rightarrow> conversations_insert \<Rightarrow> db \<Rightarrow> db_error + db" where
  "insert_conversation e i d =
     (let r = conversations_new_row e i in
      if \<not> different_users r then Inl CheckViolation
      else if conversations_id r \<in> set (map conversations_id (conversations d))
            \<or> conversations_users_idx r \<in> set (map conversations_users_idx (conversations d))
        then Inl UniqueViolation
      else if conversations_user1_id r \<notin> set (map profiles_id (profiles d))
            \<or> conversations_user2_id r \<notin> set (map profiles_id (profiles d))
        then Inl ForeignKeyViolation
      else Inr (d\<lparr>conversations := r # conversations d\<rparr>))"

text \<open>
  The trigger function of \<^verbatim>\<open>update_conversation_timestamp\<close>
  (\<^verbatim>\<open>AFTER INSERT ON messages FOR EACH ROW\<close>):
  \<^verbatim>\<open>UPDATE conversations SET last_message_at = NEW.created_at WHERE id = NEW.conversation_id\<close>.
\<close>

definition update_conversation_last_message :: "messages_row \<Rightarrow> db \<Rightarrow> db" where
  "update_conversation_last_message NEW d =
     d\<lparr>conversations :=
          map (\<lambda>c. if conversations_id c = messages_conversation_id NEW
                    then c\<lparr>conversations_last_message_at := messages_created_at NEW\<rparr>
                    else c)
              (conversations d)\<rparr>"

definition insert_message :: "env \<Rightarrow> messages_insert \<Rightarrow> db \<Rightarrow> db_error + db" where
  "insert_message e i d =
     (let r = messages_new_row e i in
      if \<not> message_length (messages_content r) then Inl CheckViolation
      else if messages_id r \<in> set (map messages_id (messages d)) then Inl UniqueViolation
      else if messages_conversation_id r \<notin> set (map conversations_id (conversations d))
            \<or> messages_sender_id r \<notin> set (map profiles_id (profiles d))
        then Inl ForeignKeyViolation
      else Inr (update_conversation_last_message r (d\<lparr>messages := r # messages d\<rparr>)))"

definition insert_notification :: "env \<Rightarrow> notifications_insert \<Rightarrow> db \<Rightarrow> db_error + db" where
  "insert_notification e i d =
     (let r = notifications_new_row e i in
      if \<not> valid_notification_type (notifications_type r) then Inl CheckViolation
      else if notifications_id r \<in> set (map notifications_id (notifications d))
        then Inl UniqueViolation
      else if notifications_user_id r \<notin> set (map profiles_id (profiles d))
            \<or> notifications_actor_id r \<notin> set (map profiles_id (profiles d))
            \<or> \<not> fk_ok (notifications_post_id r) (map posts_id (posts d))
            \<or> \<not> fk_ok (notifications_comment_id r) (map comments_id (comments d))
        then Inl ForeignKeyViolation
      else Inr (d\<lparr>notifications := r # notifications d\<rparr>))"

section \<open>Updates\<close>

text \<open>
  The trigger function \<^verbatim>\<open>update_updated_at_column\<close>, run \<^verbatim>\<open>BEFORE UPDATE ... FOR EACH ROW\<close>
  on profiles, posts and comments: \<^verbatim>\<open>NEW.updated_at = now(); RETURN NEW\<close>.
\<close>

definition update_updated_at_column_profiles :: "env \<Rightarrow> profiles_row \<Rightarrow> profiles_row" where
  "update_updated_at_column_profiles e NEW = NEW\<lparr>profiles_updated_at := Some (now e)\<rparr>"

definition update_updated_at_column_posts :: "env \<Rightarrow> posts_row \<Rightarrow> posts_row" where
  "update_updated_at_column_posts e NEW = NEW\<lparr>posts_updated_at := Some (now e)\<rparr>"

definition update_updated_at_column_comments :: "env \<Rightarrow> comments_row \<Rightarrow> comments_row" where
  "update_updated_at_column_comments e NEW = NEW\<lparr>comments_updated_at := Some (now e)\<rparr>"

text \<open>
  An \<^verbatim>\<open>UPDATE ... WHERE id = k\<close> that assigns any of the other columns is given as the
  row it proposes: the key \<open>k\<close> with the new value of every other column (the old
  value where the statement assigns nothing). With no row of that key the statement
  changes nothing and succeeds. Otherwise the row triggers run, the \<^verbatim>\<open>CHECK\<close>
  constraints and the unique indexes are checked against the other rows, and a foreign
  key is checked when its column has changed.
\<close>

definition update_profile :: "env \<Rightarrow> profiles_row \<Rightarrow> db \<Rightarrow> db_error + db" where
  "update_profile e new d =
     (case find (\<lambda>p. profiles_id p = profiles_id new) (profiles d) of
        None \<Rightarrow> Inr d
      | Some old \<Rightarrow>
          (let r = update_updated_at_column_profiles e new;
               others = filter (\<lambda>p. profiles_id p \<noteq> profiles_id r) (profiles d) in
           if \<not> (username_length (profiles_username r) \<and> username_format (profiles_username r))
             then Inl CheckViolation
           else if profiles_username r \<in> set (map profiles_username others)
             then Inl UniqueViolation
           else Inr (d\<lparr>profiles :=
                  map (\<lambda>p. if profiles_id p = profiles_id r then r else p) (profiles d)\<rparr>)))"

definition update_post :: "env \<Rightarrow> posts_row \<Rightarrow> db \<Rightarrow> db_error + db" where
  "update_post e new d =
     (case find (\<lambda>p. posts_id p = posts_id new) (posts d) of
        None \<Rightarrow> Inr d
      | Some old \<Rightarrow>
          (let r = update_updated_at_column_posts e new in
           if \<not> content_length (posts_content r) then Inl CheckViolation
           else if posts_user_id r \<noteq> posts_user_id old
                 \<and> posts_user_id r \<notin> set (map profiles_id (profiles d))
             then Inl ForeignKeyViolation
           else Inr (d\<lparr>posts :=
                  map (\<lambda>p. if posts_id p = posts_id r then r else p) (posts d)\<rparr>)))"

definition update_comment :: "env \<Rightarrow> comments_row \<Rightarrow> db \<Rightarrow> db_error + db" where
  "update_comment e new d =
     (case find (\<lambda>c. comments_id c = comments_id new) (comments d) of
        None \<Rightarrow> Inr d
      | Some old \<Rightarrow>
          (let r = update_updated_at_column_comments e new in
           if \<not> comment_length (comments_content r) then Inl CheckViolation
           else if (comments_user_id r \<noteq> comments_user_id old
                     \<and> comments_user_id r \<notin> set (map profiles_id (profiles d)))
                 \<or> (comments_post_id r \<noteq> comments_post_id old
                     \<and> comments_post_id r \<notin> set (map posts_id (posts d)))
                 \<or> (comments_parent_id r \<noteq> comments_parent_id old
                     \<and> \<not> fk_ok (comments_parent_id r) (map comments_id (comments d)))
             then Inl ForeignKeyViolation
           else Inr (d\<lparr>comments :=
                  map (\<lambda>c. if comments_id c = comments_id r then r else c) (comments d)\<rparr>)))"

definition update_conversation :: "conversations_row \<Rightarrow> db \<Rightarrow> db_error + db" where
  "update_conversation new d =
     (case find (\<lambda>c. conversations_id c = conversations_id new) (conversations d) of
        None \<Rightarrow> Inr d
      | Some old \<Rightarrow>
          (let others = filter (\<lambda>c. conversations_id c \<noteq> conversations_id new) (conversations d) in
           if \<not> different_users new then Inl CheckViolation
           else if conversations_users_idx new \<in> set (map conversations_users_idx others)
             then Inl UniqueViolation
           else if (conversations_user1_id new \<noteq> conversations_user1_id old
                     \<and> conversations_user1_id new \<notin> set (map profiles_id (profiles d)))
                 \<or> (conversations_user2_id new \<noteq> conversations_user2_id old
                     \<and> conversations_user2_id new \<notin> set (map profiles_id (profiles d)))
             then Inl ForeignKeyViolation
           else Inr (d\<lparr>conversations :=
                  map (\<lambda>c. if conversations_id c = conversations_id new then new else c)
                      (conversations d)\<rparr>)))"

definition update_message :: "messages_row \<Rightarrow> db \<Rightarrow> db_error + db" where
  "update_message new d =
     (case find (\<lambda>m. messages_id m = messages_id new) (messages d) of
        None \<Rightarrow> Inr d
      | Some old \<Rightarrow>
          (if \<not> message_length (messages_content new) then Inl CheckViolation
           else if (messages_conversation_id new \<noteq> messages_conversation_id old
                     \<and> messages_conversation_id new \<notin> set (map conversations_id (conversations d)))
                 \<or> (messages_sender_id new \<noteq> messages_sender_id old
                     \<and> messages_sender_id new \<notin> set (map profiles_id (profiles d)))
             then Inl ForeignKeyViolation
           else Inr (d\<lparr>messages :=
                  map (\<lambda>m. if messages_id m = messages_id new then new else m) (messages d)\<rparr>)))"

definition update_notification :: "notifications_row \<Rightarrow> db \<Rightarrow> db_error + db" where
  "update_notification new d =
     (case find (\<lambda>n. notifications_id n = notifications_id new) (notifications d) of
        None \<Rightarrow> Inr d
      | Some old \<Rightarrow>
          (if \<not> valid_notification_type (notifications_type new) then Inl CheckViolation
           else if (notifications_user_id new \<noteq> notifications_user_id old
                     \<and> notifications_user_id new \<notin> set (map profiles_id (profiles d)))
                 \<or> (notifications_actor_id new \<noteq> notifications_actor_id old
                     \<and> notifications_actor_id new \<notin> set (map profiles_id (profiles d)))
                 \<or> (notifications_post_id new \<noteq> notifications_post_id old
                     \<and> \<not> fk_ok (notifications_post_id new) (map posts_id (posts d)))
                 \<or> (notifications_comment_id new \<noteq> notifications_comment_id old
                     \<and> \<not> fk_ok (notifications_comment_id new) (map comments_id (comments d)))
             then Inl ForeignKeyViolation
           else Inr (d\<lparr>notifications :=
                  map (\<lambda>n. if notifications_id n = notifications_id new then new else n)
                      (notifications d)\<rparr>)))"

section \<open>Deletes and \<^verbatim>\<open>ON DELETE CASCADE\<close>\<close>

text \<open>
  Every foreign key of the schema is declared \<^verbatim>\<open>ON DELETE CASCADE\<close>: a delete removes
  the rows that reference a removed row, and so on. Only \<^verbatim>\<open>comments.parent_id\<close> points
  into its own table, so only there the cascade repeats: \<open>cascade_comments dead cs\<close>
  removes from \<open>cs\<close> the replies to the comments \<open>dead\<close>, then the replies to those,
  until none is left.
\<close>

definition reply_to :: "uuid list \<Rightarrow> comments_row \<Rightarrow> bool" where
  "reply_to dead c = (case comments_parent_id c of None \<Rightarrow> False | Some k \<Rightarrow> k \<in> set dead)"

function cascade_comments :: "uuid list \<Rightarrow> comments_row list \<Rightarrow> comments_row list" where
  "cascade_comments dead cs =
     (if filter (reply_to dead) cs = [] then cs
      else cascade_comments (map comments_id (filter (reply_to dead) cs))
             (filter (\<lambda>c. \<not> reply_to dead c) cs))"
  by pat_completeness auto
termination
proof (relation "measure (\<lambda>(dead, cs). length cs)")
  show "wf (measure (\<lambda>(dead, cs). length cs))" by simp
next
  fix dead :: "uuid list" and cs :: "comments_row list"
  assume "filter (reply_to dead) cs \<noteq> []"
  then obtain c where "c \<in> set cs" "reply_to dead c"
    by (metis filter_False)
  then have "length (filter (\<lambda>c. \<not> reply_to dead c) cs) < length cs"
    by (simp add: length_filter_less)
  then show "((map comments_id (filter (reply_to dead) cs), filter (\<lambda>c. \<not> reply_to dead c) cs),
              (dead, cs)) \<in> measure (\<lambda>(dead, cs). length cs)"
    by simp
qed

declare cascade_comments.simps [simp del]

text \<open>
  Deleting the comments that satisfy \<open>P\<close>: their replies go with them
  (\<^verbatim>\<open>comments.parent_id\<close>), and the notifications about any removed comment
  (\<^verbatim>\<open>notifications.comment_id\<close>).
\<close>

definition delete_comments_where :: "(comments_row \<Rightarrow> bool) \<Rightarrow> db \<Rightarrow> db" where
  "delete_comments_where P d =
     (let kept = cascade_comments (map comments_id (filter P (comments d)))
                   (filter (\<lambda>c. \<not> P c) (comments d));
          dead = map comments_id (filter (\<lambda>c. c \<notin> set kept) (comments d))
      in d\<lparr>comments := kept,
            notifications :=
              filter (\<lambda>n. case notifications_comment_id n of None \<Rightarrow> True | Some k \<Rightarrow> k \<notin> set dead)
                (notifications d)\<rparr>)"

text \<open>
  Deleting the posts that satisfy \<open>P\<close>: their likes (\<^verbatim>\<open>likes.post_id\<close>), their comments
  (\<^verbatim>\<open>comments.post_id\<close>) and the notifications about them (\<^verbatim>\<open>notifications.post_id\<close>).
\<close>

definition delete_posts_where :: "(posts_row \<Rightarrow> bool) \<Rightarrow> db \<Rightarrow> db" where
  "delete_posts_where P d =
     (let dead = map posts_id (filter P (posts d)) in
      delete_comments_where (\<lambda>c. comments_post_id c \<in> set dead)
        (d\<lparr>posts := filter (\<lambda>p. \<not> P p) (posts d),
           likes := filter (\<lambda>l. likes_post_id l \<notin> set dead) (likes d),
           notifications :=
             filter (\<lambda>n. case notifications_post_id n of None \<Rightarrow> True | Some k \<Rightarrow> k \<notin> set dead)
               (notifications d)\<rparr>))"

text \<open>Deleting the conversations that satisfy \<open>P\<close>: their messages (\<^verbatim>\<open>messages.conversation_id\<close>).\<close>

definition delete_conversations_where :: "(conversations_row \<Rightarrow> bool) \<Rightarrow> db \<Rightarrow> db" where
  "delete_conversations_where P d =
     (let dead = map conversations_id (filter P (conversations d)) in
      d\<lparr>conversations := filter (\<lambda>c. \<not> P c) (conversations d),
        messages := filter (\<lambda>m. messages_conversation_id m \<notin> set dead) (messages d)\<rparr>)"

text \<open>
  \<^verbatim>\<open>DELETE FROM profiles WHERE id = k\<close>. With no such row nothing happens. Otherwise the
  row goes, and with it, through the foreign keys that reference \<^verbatim>\<open>profiles(id)\<close>: the
  posts of \<open>k\<close>, its likes, its comments, the follows in either direction, the
  conversations on either side, the messages it sent, and the notifications to it or
  caused by it; each with its own cascade.
\<close>

definition delete_profile :: "uuid \<Rightarrow> db \<Rightarrow> db" where
  "delete_profile k d =
     (if k \<notin> set (map profiles_id (profiles d)) then d
      else
        let d1 = d\<lparr>profiles := filter (\<lambda>p. profiles_id p \<noteq> k) (profiles d)\<rparr>;
            d2 = delete_posts_where (\<lambda>p. posts_user_id p = k) d1;
            d3 = d2\<lparr>likes := filter (\<lambda>l. likes_user_id l \<noteq> k) (likes d2)\<rparr>;
            d4 = delete_comments_where (\<lambda>c. comments_user_id c = k) d3;
            d5 = d4\<lparr>follows := filter (\<lambda>f. follows_follower_id f \<noteq> k \<and> follows_following_id f \<noteq> k)
                                 (follows d4)\<rparr>;
            d6 = delete_conversations_where
                   (\<lambda>c. conversations_user1_id c = k \<or> conversations_user2_id c = k) d5;
            d7 = d6\<lparr>messages := filter (\<lambda>m. messages_sender_id m \<noteq> k) (messages d6)\<rparr>
        in d7\<lparr>notifications :=
                 filter (\<lambda>n. notifications_user_id n \<noteq> k \<and> notifications_actor_id n \<noteq> k)
                   (notifications d7)\<rparr>)"

text \<open>
  The other deletes by key. \<^verbatim>\<open>profiles.id\<close> references \<^verbatim>\<open>auth.users(id)\<close> with
  \<^verbatim>\<open>ON DELETE CASCADE\<close>, so removing an account removes its profile.
\<close>

definition delete_auth_user :: "uuid \<Rightarrow> db \<Rightarrow> db" where
  "delete_auth_user k d = delete_profile k (d\<lparr>auth_users := removeAll k (auth_users d)\<rparr>)"

definition delete_post :: "uuid \<Rightarrow> db \<Rightarrow> db" where
  "delete_post k d = delete_posts_where (\<lambda>p. posts_id p = k) d"

definition delete_like :: "uuid \<Rightarrow> db \<Rightarrow> db" where
  "delete_like k d = d\<lparr>likes := filter (\<lambda>l. likes_id l \<noteq> k) (likes d)\<rparr>"

definition delete_comment :: "uuid \<Rightarrow> db \<Rightarrow> db" where
  "delete_comment k d = delete_comments_where (\<lambda>c. comments_id c = k) d"

definition delete_follow :: "uuid \<Rightarrow> db \<Rightarrow> db" where
  "delete_follow k d = d\<lparr>follows := filter (\<lambda>f. follows_id f \<noteq> k) (follows d)\<rparr>"

definition delete_notification :: "uuid \<Rightarrow> db \<Rightarrow> db" where
  "delete_notification k d =
     d\<lparr>notifications := filter (\<lambda>n. notifications_id n \<noteq> k) (notifications d)\<rparr>"

section \<open>Statements and reachable states\<close>

datatype statement =
    Signup uuid
  | Insert_profile env profiles_insert
  | Insert_post env posts_insert
  | Insert_like env likes_insert
  | Insert_comment env comments_insert
  | Insert_follow env follows_insert
  | Insert_conversation env conversations_insert
  | Insert_message env messages_insert
  | Insert_notification env notifications_insert
  | Update_profile env profiles_row
  | Update_post env posts_row
  | Update_comment env comments_row
  | Update_conversation conversations_row
  | Update_message messages_row
  | Update_notification notifications_row
  | Delete_auth_user uuid
  | Delete_profile uuid
  | Delete_post uuid
  | Delete_like uuid
  | Delete_comment uuid
  | Delete_follow uuid
  | Delete_notification uuid

fun exec :: "statement \<Rightarrow> db \<Rightarrow> db_error + db" where
  "exec (Signup u) d = signup u d"
| "exec (Insert_profile e i) d = insert_profile e i d"
| "exec (Insert_post e i) d = insert_post e i d"
| "exec (Insert_like e i) d = insert_like e i d"
| "exec (Insert_comment e i) d = insert_comment e i d"
| "exec (Insert_follow e i) d = insert_follow e i d"
| "exec (Insert_conversation e i) d = insert_conversation e i d"
| "exec (Insert_message e i) d = insert_message e i d"
| "exec (Insert_notification e i) d = insert_notification e i d"
| "exec (Update_profile e r) d = update_profile e r d"
| "exec (Update_post e r) d = update_post e r d"
| "exec (Update_comment e r) d = update_comment e r d"
| "exec (Update_conversation r) d = update_conversation r d"
| "exec (Update_message r) d = update_message r d"
| "exec (Update_notification r) d = update_notification r d"
| "exec (Delete_auth_user k) d = Inr (delete_auth_user k d)"
| "exec (Delete_profile k) d = Inr (delete_profile k d)"
| "exec (Delete_post k) d = Inr (delete_post k d)"
| "exec (Delete_like k) d = Inr (delete_like k d)"
| "exec (Delete_comment k) d = Inr (delete_comment k d)"
| "exec (Delete_follow k) d = Inr (delete_follow k d)"
| "exec (Delete_notification k) d = Inr (delete_notification k d)"

text \<open>
  A statement is its own transaction: when it fails, the database is as it was before.
\<close>

definition run :: "statement \<Rightarrow> db \<Rightarrow> db" where
  "run s d = (case exec s d of Inl err \<Rightarrow> d | Inr d' \<Rightarrow> d')"

definition run_all :: "statement list \<Rightarrow> db \<Rightarrow> db" where
  "run_all ss d = foldl (\<lambda>d s. run s d) d ss"

text \<open>The states the statements above can build, starting from the empty database.\<close>

inductive reachable :: "db \<Rightarrow> bool" where
  reachable_empty: "reachable empty_db"
| reachable_exec: "reachable d \<Longrightarrow> exec s d = Inr d' \<Longrightarrow> reachable d'"

section \<open>Row-level policies of conversations and messages\<close>

text \<open>
  The caller is an authenticated account; \<open>uid\<close> is the value of \<^verbatim>\<open>auth.uid()\<close>, which
  the later migrations spell \<^verbatim>\<open>(select auth.uid())\<close>. The policies of messages look a
  conversation up with a sub-select; it reads \<^verbatim>\<open>conversations\<close> as the caller does,
  through that table's own \<^verbatim>\<open>SELECT\<close> policy.
\<close>

definition conversations_select_using :: "uuid \<Rightarrow> conversations_row \<Rightarrow> bool" where
  "conversations_select_using uid c \<longleftrightarrow>
     uid = conversations_user1_id c \<or> uid = conversations_user2_id c"

definition select_conversations_as :: "uuid \<Rightarrow> db \<Rightarrow> conversations_row list" where
  "select_conversations_as uid d = filter (conversations_select_using uid) (conversations d)"

text \<open>
  \<^verbatim>\<open>EXISTS (SELECT 1 FROM conversations WHERE conversations.id = messages.conversation_id
  AND (conversations.user1_id = auth.uid() OR conversations.user2_id = auth.uid()))\<close>
\<close>

definition in_own_conversation :: "uuid \<Rightarrow> db \<Rightarrow> messages_row \<Rightarrow> bool" where
  "in_own_conversation uid d m \<longleftrightarrow>
     list_ex (\<lambda>c. conversations_id c = messages_conversation_id m
                \<and> (conversations_user1_id c = uid \<or> conversations_user2_id c = uid))
       (select_conversations_as uid d)"

text \<open>\<^verbatim>\<open>"Users can view messages in their conversations" ... FOR SELECT USING\<close>\<close>

definition messages_select_using :: "uuid \<Rightarrow> db \<Rightarrow> messages_row \<Rightarrow> bool" where
  "messages_select_using uid d m \<longleftrightarrow> in_own_conversation uid d m"

text \<open>\<^verbatim>\<open>"Users can create messages in their conversations" ... FOR INSERT WITH CHECK\<close>\<close>

definition messages_insert_check :: "uuid \<Rightarrow> db \<Rightarrow> messages_row \<Rightarrow> bool" where
  "messages_insert_check uid d m \<longleftrightarrow> uid = messages_sender_id m \<and> in_own_conversation uid d m"

text \<open>\<^verbatim>\<open>"Users can update their own messages" ... FOR UPDATE USING ... WITH CHECK\<close>\<close>

definition messages_update_using :: "uuid \<Rightarrow> db \<Rightarrow> messages_row \<Rightarrow> bool" where
  "messages_update_using uid d m \<longleftrightarrow> in_own_conversation uid d m"

definition messages_update_check :: "uuid \<Rightarrow> db \<Rightarrow> messages_row \<Rightarrow> bool" where
  "messages_update_check uid d m \<longleftrightarrow> in_own_conversation uid d m"

text \<open>
  The statements on messages as a caller issues them. A read returns the rows the
  \<^verbatim>\<open>SELECT\<close> policy accepts. An insert whose row fails \<^verbatim>\<open>WITH CHECK\<close> is an error, raised
  before the constraints are looked at. An update sees only the rows that pass \<^verbatim>\<open>USING\<close>
  (and the \<^verbatim>\<open>SELECT\<close> policy, as its \<^verbatim>\<open>WHERE\<close> reads the row): on any other row it does
  nothing; the row it proposes must pass \<^verbatim>\<open>WITH CHECK\<close>.
\<close>

definition select_messages_as :: "uuid \<Rightarrow> db \<Rightarrow> messages_row list" where
  "select_messages_as uid d = filter (messages_select_using uid d) (messages d)"

definition insert_message_as :: "uuid \<Rightarrow> env \<Rightarrow> messages_insert \<Rightarrow> db \<Rightarrow> db_error + db" where
  "insert_message_as uid e i d =
     (if \<not> messages_insert_check uid d (messages_new_row e i) then Inl RlsViolation
      else insert_message e i d)"

definition update_message_as :: "uuid \<Rightarrow> messages_row \<Rightarrow> db \<Rightarrow> db_error + db" where
  "update_message_as uid new d =
     (case find (\<lambda>m. messages_id m = messages_id new) (messages d) of
        None \<Rightarrow> Inr d
      | Some old \<Rightarrow>
          if \<not> (messages_select_using uid d old \<and> messages_update_using uid d old) then Inr d
          else if \<not> messages_update_check uid d new then Inl RlsViolation
          else update_message new d)"

section \<open>The trigger functions across the migrations\<close>

text \<open>
  What \<^verbatim>\<open>CREATE FUNCTION\<close> records of a function, as far as the migrations vary it:
  whether it is \<^verbatim>\<open>SECURITY DEFINER\<close>, the \<^verbatim>\<open>search_path\<close> that a \<^verbatim>\<open>SET\<close> clause attaches
  to it (none without the clause), and its body.
\<close>

datatype function_body = Set_updated_at_to_now | Set_last_message_at_of_conversation

record pg_function =
  prosecdef :: bool
  proconfig_search_path :: "string list option"
  prosrc :: function_body

datatype ddl =
    Drop_function_if_exists_cascade string
  | Create_or_replace_function string pg_function

type_synonym pg_proc = "string \<Rightarrow> pg_function option"

fun apply_ddl :: "pg_proc \<Rightarrow> ddl \<Rightarrow> pg_proc" where
  "apply_ddl c (Drop_function_if_exists_cascade f) = c(f := None)"
| "apply_ddl c (Create_or_replace_function f def) = c(f \<mapsto> def)"

record migration =
  version :: nat
  statements :: "ddl list"

text \<open>
  The statements of each migration file that drop or define a function, in the order of
  the file. \<^verbatim>\<open>20251115152525_fix_remaining_security_issues.sql\<close> has none.
\<close>

definition create_social_app_schema :: migration where
  "create_social_app_schema =
     \<lparr>version = 20251115160152,
      statements =
        [Create_or_replace_function ''update_updated_at_column''
           \<lparr>prosecdef = False, proconfig_search_path = None, prosrc = Set_updated_at_to_now\<rparr>,
         Create_or_replace_function ''update_conversation_last_message''
           \<lparr>prosecdef = False, proconfig_search_path = None,
            prosrc = Set_last_message_at_of_conversation\<rparr>]\<rparr>"

definition fix_security_and_performance_issues :: migration where
  "fix_security_and_performance_issues =
     \<lparr>version = 20251115152416,
      statements =
        [Drop_function_if_exists_cascade ''update_updated_at_column'',
         Create_or_replace_function ''update_updated_at_column''
           \<lparr>prosecdef = True, proconfig_search_path = Some [''public'', ''pg_temp''],
            prosrc = Set_updated_at_to_now\<rparr>,
         Drop_function_if_exists_cascade ''update_conversation_last_message'',
         Create_or_replace_function ''update_conversation_last_message''
           \<lparr>prosecdef = True, proconfig_search_path = Some [''public'', ''pg_temp''],
            prosrc = Set_last_message_at_of_conversation\<rparr>]\<rparr>"

definition fix_remaining_security_issues :: migration where
  "fix_remaining_security_issues = \<lparr>version = 20251115152525, statements = []\<rparr>"

definition fix_all_security_and_performance_issues :: migration where
  "fix_all_security_and_performance_issues =
     \<lparr>version = 20251115163920,
      statements =
        [Create_or_replace_function ''update_updated_at_column''
           \<lparr>prosecdef = True, proconfig_search_path = Some [''public'', ''pg_temp''],
            prosrc = Set_updated_at_to_now\<rparr>,
         Create_or_replace_function ''update_conversation_last_message''
           \<lparr>prosecdef = True, proconfig_search_path = Some [''public'', ''pg_temp''],
            prosrc = Set_last_message_at_of_conversation\<rparr>]\<rparr>"

definition migrations :: "migration list" where
  "migrations = [create_social_app_schema, fix_security_and_performance_issues,
                 fix_remaining_security_issues, fix_all_security_and_performance_issues]"

text \<open>Migrations are applied in the order of their version, the timestamp of the file name.\<close>

definition apply_migrations :: "migration list \<Rightarrow> pg_proc" where
  "apply_migrations ms =
     foldl (\<lambda>c m. foldl apply_ddl c (statements m)) Map.empty (sort_key version ms)"

text \<open>
  While a function runs, the \<^verbatim>\<open>search_path\<close> is the one attached to the function, and
  the caller's session setting only where the function has none; a
  \<^verbatim>\<open>SECURITY DEFINER\<close> function runs with the rights of its owner, any other with those
  of its caller.
\<close>

definition search_path_inside :: "pg_function \<Rightarrow> string list \<Rightarrow> string list" where
  "search_path_inside f session_search_path =
     (case proconfig_search_path f of None \<Rightarrow> session_search_path | Some p \<Rightarrow> p)"

definition runs_as :: "pg_function \<Rightarrow> 'role \<Rightarrow> 'role \<Rightarrow> 'role" where
  "runs_as f owner caller = (if prosecdef f then owner else caller)"

section \<open>An example database\<close>

text \<open>
  Four accounts, three of them with a profile; a post of the first with a like and a comment of
  the second and a reply of the third; a follow; a conversation between the first two
  with one message; two notifications.
\<close>

definition example_profile :: "uuid \<Rightarrow> string \<Rightarrow> profiles_insert" where
  "example_profile k name =
     \<lparr>profiles_id_in = k, profiles_username_in = text_of name,
      profiles_full_name_in = Omitted, profiles_bio_in = Omitted, profiles_avatar_url_in = Omitted,
      profiles_cover_photo_url_in = Omitted, profiles_location_in = Omitted,
      profiles_website_in = Omitted, profiles_created_at_in = Omitted,
      profiles_updated_at_in = Omitted\<rparr>"

definition example_statements :: "statement list" where
  "example_statements =
     [Signup 1, Signup 2, Signup 3, Signup 4,
      Insert_profile \<lparr>now = 100, gen_random_uuid = 0\<rparr> (example_profile 1 ''alice''),
      Insert_profile \<lparr>now = 101, gen_random_uuid = 0\<rparr> (example_profile 2 ''bob_2''),
      Insert_profile \<lparr>now = 102, gen_random_uuid = 0\<rparr> (example_profile 3 ''Carol''),
      Insert_post \<lparr>now = 110, gen_random_uuid = 10\<rparr>
        \<lparr>posts_id_in = None, posts_user_id_in = 1, posts_content_in = text_of ''hello'',
         posts_media_urls_in = Omitted, posts_created_at_in = Omitted,
         posts_updated_at_in = Omitted, posts_is_edited_in = Omitted\<rparr>,
      Insert_like \<lparr>now = 120, gen_random_uuid = 20\<rparr>
        \<lparr>likes_id_in = None, likes_user_id_in = 2, likes_post_id_in = 10,
         likes_created_at_in = Omitted\<rparr>,
      Insert_comment \<lparr>now = 130, gen_random_uuid = 30\<rparr>
        \<lparr>comments_id_in = None, comments_user_id_in = 2, comments_post_id_in = 10,
         comments_parent_id_in = Omitted, comments_content_in = text_of ''nice'',
         comments_created_at_in = Omitted, comments_updated_at_in = Omitted,
         comments_is_edited_in = Omitted\<rparr>,
      Insert_comment \<lparr>now = 131, gen_random_uuid = 31\<rparr>
        \<lparr>comments_id_in = None, comments_user_id_in = 3, comments_post_id_in = 10,
         comments_parent_id_in = Given (Some 30), comments_content_in = text_of ''yes'',
         comments_created_at_in = Omitted, comments_updated_at_in = Omitted,
         comments_is_edited_in = Omitted\<rparr>,
      Insert_follow \<lparr>now = 140, gen_random_uuid = 40\<rparr>
        \<lparr>follows_id_in = None, follows_follower_id_in = 2, follows_following_id_in = 1,
         follows_created_at_in = Omitted\<rparr>,
      Insert_conversation \<lparr>now = 150, gen_random_uuid = 50\<rparr>
        \<lparr>conversations_id_in = None, conversations_user1_id_in = 2,
         conversations_user2_id_in = 1, conversations_last_message_at_in = Omitted,
         conversations_created_at_in = Omitted\<rparr>,
      Insert_message \<lparr>now = 160, gen_random_uuid = 60\<rparr>
        \<lparr>messages_id_in = None, messages_conversation_id_in = 50, messages_sender_id_in = 1,
         messages_content_in = text_of ''hi'', messages_is_read_in = Omitted,
         messages_created_at_in = Omitted\<rparr>,
      Insert_notification \<lparr>now = 170, gen_random_uuid = 70\<rparr>
        \<lparr>notifications_id_in = None, notifications_user_id_in = 1, notifications_actor_id_in = 2,
         notifications_type_in = text_of ''like'', notifications_post_id_in = Given (Some 10),
         notifications_comment_id_in = Omitted, notifications_is_read_in = Omitted,
         notifications_created_at_in = Omitted\<rparr>,
      Insert_notification \<lparr>now = 171, gen_random_uuid = 71\<rparr>
        \<lparr>notifications_id_in = None, notifications_user_id_in = 1, notifications_actor_id_in = 3,
         notifications_type_in = text_of ''comment'', notifications_post_id_in = Given (Some 10),
         notifications_comment_id_in = Given (Some 31), notifications_is_read_in = Omitted,
         notifications_created_at_in = Omitted\<rparr>]"

definition example_db :: db where
  "example_db = run_all example_statements empty_db"


text \<open>The conversation and the message of the example, as they are stored.\<close>

definition example_conversation :: conversations_row where
  "example_conversation =
     \<lparr>conversations_id = 50, conversations_user1_id = 2, conversations_user2_id = 1,
      conversations_last_message_at = Some 160, conversations_created_at = Some 150\<rparr>"

definition example_message :: messages_row where
  "example_message =
     \<lparr>messages_id = 60, messages_conversation_id = 50, messages_sender_id = 1,
      messages_content = text_of ''hi'', messages_is_read = Some False,
      messages_created_at = Some 160\<rparr>"

text \<open>
  A conversation inserted with an explicit \<^verbatim>\<open>NULL\<close> for \<^verbatim>\<open>last_message_at\<close>.
\<close>

definition null_last_message_at_statements :: "statement list" where
  "null_last_message_at_statements =
     [Signup 1, Signup 2,
      Insert_profile \<lparr>now = 100, gen_random_uuid = 0\<rparr> (example_profile 1 ''alice''),
      Insert_profile \<lparr>now = 101, gen_random_uuid = 0\<rparr> (example_profile 2 ''bob_2''),
      Insert_conversation \<lparr>now = 150, gen_random_uuid = 50\<rparr>
        \<lparr>conversations_id_in = None, conversations_user1_id_in = 1,
         conversations_user2_id_in = 2, conversations_last_message_at_in = Given None,
         conversations_created_at_in = Omitted\<rparr>]"

section \<open>Auxiliary facts\<close>

lemmas insert_defs = signup_def insert_profile_def insert_post_def insert_like_def insert_comment_def
  insert_follow_def insert_conversation_def insert_message_def insert_notification_def
lemmas update_defs = update_profile_def update_post_def update_comment_def update_conversation_def
  update_message_def update_notification_def
lemmas delete_defs = delete_auth_user_def delete_profile_def delete_post_def delete_like_def
  delete_comment_def delete_follow_def delete_notification_def delete_posts_where_def
  delete_comments_where_def delete_conversations_where_def

lemmas row_defs = profiles_new_row_def posts_new_row_def likes_new_row_def comments_new_row_def
  follows_new_row_def conversations_new_row_def messages_new_row_def notifications_new_row_def
  new_id_def
lemmas check_defs = username_length_def username_format_def username_char_def content_length_def
  comment_length_def message_length_def no_self_follow_def different_users_def
  conversations_users_idx_def valid_notification_type_def fk_ok_def char_length_def text_of_def

lemma distinct_map_replace:
  "distinct (map key xs) \<Longrightarrow> distinct (map f xs)
   \<Longrightarrow> f r \<notin> set (map f (filter (\<lambda>x. key x \<noteq> k) xs))
   \<Longrightarrow> distinct (map f (map (\<lambda>x. if key x = k then r else x) xs))"
proof (induction xs)
  case Nil
  then show ?case by simp
next
  case (Cons x xs)
  show ?case
  proof (cases "key x = k")
    case True
    from Cons.prems(1) have "key x \<notin> set (map key xs)" by simp
    with True have "\<forall>y\<in>set xs. key y \<noteq> k" by (force simp: image_iff)
    then have same: "map (\<lambda>x. if key x = k then r else x) xs = xs"
      and all: "filter (\<lambda>x. key x \<noteq> k) xs = xs"
      by (simp_all add: map_idI)
    with Cons.prems True show ?thesis by simp
  next
    case False
    let ?g = "\<lambda>x. if key x = k then r else x"
    from Cons.prems False have rx: "f r \<noteq> f x"
      and rest: "f r \<notin> set (map f (filter (\<lambda>x. key x \<noteq> k) xs))"
      and fx: "f x \<notin> f ` set xs"
      by auto
    from Cons.IH Cons.prems rest have IH: "distinct (map f (map ?g xs))" by simp
    have "f x \<notin> set (map f (map ?g xs))"
    proof
      assume "f x \<in> set (map f (map ?g xs))"
      then obtain y where y: "y \<in> set xs" "f x = f (?g y)" by auto
      show False
      proof (cases "key y = k")
        case True
        with y rx show False by simp
      next
        case False
        with y fx show False by auto
      qed
    qed
    with IH False show ?thesis by simp
  qed
qed

lemma map_key_replace:
  "key r = k \<Longrightarrow> map key (map (\<lambda>x. if key x = k then r else x) xs) = map key xs"
  by (induction xs) auto

lemma length_filter_key_le_1:
  "distinct (map f xs) \<Longrightarrow> length (filter (\<lambda>x. f x = k) xs) \<le> 1"
proof (induction xs)
  case Nil
  then show ?case by simp
next
  case (Cons x xs)
  show ?case
  proof (cases "f x = k")
    case True
    with Cons.prems have "filter (\<lambda>x. f x = k) xs = []"
      by (auto simp: filter_empty_conv image_iff)
    with True show ?thesis by simp
  next
    case False
    with Cons show ?thesis by simp
  qed
qed

lemma users_idx_eq_iff:
  "conversations_users_idx c = (min A B, max A B)
   \<longleftrightarrow> {conversations_user1_id c, conversations_user2_id c} = {A, B}"
  by (auto simp: conversations_users_idx_def min_def max_def doubleton_eq_iff)

lemma distinct_key_inj:
  "distinct (map key xs) \<Longrightarrow> x \<in> set xs \<Longrightarrow> y \<in> set xs \<Longrightarrow> key x = key y \<Longrightarrow> x = y"
  by (meson distinct_map inj_onD)

lemma find_by_key:
  "distinct (map key xs) \<Longrightarrow> x \<in> set xs \<Longrightarrow> find (\<lambda>y. key y = key x) xs = Some x"
proof (induction xs)
  case Nil
  then show ?case by simp
next
  case (Cons a xs)
  then show ?case by (auto simp: image_iff)
qed

subsection \<open>What every reachable state satisfies\<close>

text \<open>
  Each statement keeps the keys of conversations and of messages unique, keeps the pairs
  of \<^verbatim>\<open>likes\<close> and the index keys of \<^verbatim>\<open>conversations_users_idx\<close> unique, and keeps
  the \<^verbatim>\<open>CHECK\<close> constraints of conversations and profiles true of every stored row.
\<close>

lemma exec_conversations:
  assumes "exec s d = Inr d'"
    and "distinct (map conversations_id (conversations d))"
    and "distinct (map conversations_users_idx (conversations d))"
    and "\<forall>c\<in>set (conversations d). different_users c"
  shows "distinct (map conversations_id (conversations d'))
       \<and> distinct (map conversations_users_idx (conversations d'))
       \<and> (\<forall>c\<in>set (conversations d'). different_users c)"
proof (cases s)
  case (Insert_conversation e i)
  with assms show ?thesis by (auto simp: insert_conversation_def Let_def split: if_splits)
next
  case (Insert_message e i)
  let ?g = "\<lambda>c. if conversations_id c = messages_conversation_id (messages_new_row e i)
                    then c\<lparr>conversations_last_message_at := messages_created_at (messages_new_row e i)\<rparr>
                    else c"
  have 1: "map conversations_id (map ?g cs) = map conversations_id cs" for cs
    by (induction cs) auto
  have 2: "map conversations_users_idx (map ?g cs) = map conversations_users_idx cs" for cs
    by (induction cs) (auto simp: conversations_users_idx_def)
  from Insert_message assms(1)
  have eq: "conversations d' = map ?g (conversations d)"
    by (auto simp: insert_message_def Let_def update_conversation_last_message_def split: if_splits)
  have ids: "map conversations_id (conversations d') = map conversations_id (conversations d)"
    unfolding eq by (rule 1)
  have idx: "map conversations_users_idx (conversations d') = map conversations_users_idx (conversations d)"
    unfolding eq by (rule 2)
  have "\<forall>c\<in>set (conversations d'). different_users c"
    using assms(4) unfolding eq by (auto simp: different_users_def)
  then show ?thesis using assms(2,3) unfolding ids idx by blast
next
  case (Update_conversation r)
  show ?thesis
  proof (cases "find (\<lambda>c. conversations_id c = conversations_id r) (conversations d)")
    case None
    with Update_conversation assms show ?thesis by (simp add: update_conversation_def)
  next
    case (Some old)
    with Update_conversation assms(1)
    have eq: "conversations d' = map (\<lambda>c. if conversations_id c = conversations_id r then r else c) (conversations d)"
      and du: "different_users r"
      and nin: "conversations_users_idx r \<notin> set (map conversations_users_idx
             (filter (\<lambda>c. conversations_id c \<noteq> conversations_id r) (conversations d)))"
      by (auto simp: update_conversation_def Let_def split: if_splits)
    from assms(2,3) nin have idx: "distinct (map conversations_users_idx (conversations d'))"
      unfolding eq by (rule distinct_map_replace)
    have ids: "map conversations_id (conversations d') = map conversations_id (conversations d)"
      unfolding eq by (rule map_key_replace) simp
    have "\<forall>c\<in>set (conversations d'). different_users c"
      using assms(4) du unfolding eq by auto
    then show ?thesis using assms(2) idx unfolding ids by blast
  qed
next
  case (Delete_profile k)
  with assms show ?thesis
    by (auto simp: delete_defs Let_def distinct_map_filter split: if_splits)
next
  case (Delete_auth_user k)
  with assms show ?thesis
    by (auto simp: delete_defs Let_def distinct_map_filter split: if_splits)
qed (use assms in \<open>auto simp: insert_defs update_defs delete_defs Let_def split: if_splits option.splits\<close>)

lemma exec_messages:
  assumes "exec s d = Inr d'" and "distinct (map messages_id (messages d))"
  shows "distinct (map messages_id (messages d'))"
proof (cases s)
  case (Insert_message e i)
  with assms show ?thesis
    by (auto simp: insert_message_def Let_def update_conversation_last_message_def split: if_splits)
next
  case (Update_message r)
  have "map messages_id (map (\<lambda>m. if messages_id m = messages_id r then r else m) (messages d))
        = map messages_id (messages d)"
    by (rule map_key_replace) simp
  with Update_message assms show ?thesis
    by (auto simp: update_message_def Let_def simp del: map_map split: if_splits option.splits)
next
  case (Delete_profile k)
  with assms show ?thesis
    by (auto simp: delete_defs Let_def distinct_map_filter split: if_splits)
next
  case (Delete_auth_user k)
  with assms show ?thesis
    by (auto simp: delete_defs Let_def distinct_map_filter split: if_splits)
qed (use assms in \<open>auto simp: insert_defs update_defs delete_defs Let_def split: if_splits option.splits\<close>)

lemma exec_likes:
  assumes "exec s d = Inr d'"
    and "distinct (map (\<lambda>l. (likes_user_id l, likes_post_id l)) (likes d))"
  shows "distinct (map (\<lambda>l. (likes_user_id l, likes_post_id l)) (likes d'))"
proof (cases s)
  case (Insert_like e i)
  with assms show ?thesis by (auto simp: insert_like_def Let_def split: if_splits)
next
  case (Delete_profile k)
  with assms show ?thesis
    by (auto simp: delete_defs Let_def distinct_map_filter split: if_splits)
next
  case (Delete_auth_user k)
  with assms show ?thesis
    by (auto simp: delete_defs Let_def distinct_map_filter split: if_splits)
next
  case (Delete_post k)
  with assms show ?thesis by (auto simp: delete_defs Let_def distinct_map_filter)
next
  case (Delete_like k)
  with assms show ?thesis by (auto simp: delete_defs Let_def distinct_map_filter)
qed (use assms in \<open>auto simp: insert_defs update_defs delete_defs Let_def update_conversation_last_message_def split: if_splits option.splits\<close>)

lemma exec_profiles:
  assumes "exec s d = Inr d'"
    and "\<forall>p\<in>set (profiles d). username_length (profiles_username p) \<and> username_format (profiles_username p)"
  shows "\<forall>p\<in>set (profiles d'). username_length (profiles_username p) \<and> username_format (profiles_username p)"
proof (cases s)
  case (Insert_profile e i)
  with assms show ?thesis by (auto simp: insert_profile_def Let_def split: if_splits)
next
  case (Update_profile e r)
  with assms show ?thesis
    by (auto simp: update_profile_def Let_def update_updated_at_column_profiles_def split: if_splits option.splits)
next
  case (Delete_profile k)
  with assms show ?thesis
    by (auto simp: delete_defs Let_def split: if_splits)
next
  case (Delete_auth_user k)
  with assms show ?thesis
    by (auto simp: delete_defs Let_def split: if_splits)
qed (use assms in \<open>auto simp: insert_defs update_defs delete_defs Let_def update_conversation_last_message_def split: if_splits option.splits\<close>)

lemma reachable_conversations:
  "reachable d \<Longrightarrow>
     distinct (map conversations_id (conversations d))
   \<and> distinct (map conversations_users_idx (conversations d))
   \<and> (\<forall>c\<in>set (conversations d). different_users c)"
proof (induction rule: reachable.induct)
  case reachable_empty
  show ?case by (simp add: empty_db_def)
next
  case (reachable_exec d s d')
  then show ?case using exec_conversations by blast
qed

lemma reachable_messages: "reachable d \<Longrightarrow> distinct (map messages_id (messages d))"
proof (induction rule: reachable.induct)
  case reachable_empty
  show ?case by (simp add: empty_db_def)
next
  case (reachable_exec d s d')
  then show ?case using exec_messages by blast
qed

lemma reachable_likes:
  "reachable d \<Longrightarrow> distinct (map (\<lambda>l. (likes_user_id l, likes_post_id l)) (likes d))"
proof (induction rule: reachable.induct)
  case reachable_empty
  show ?case by (simp add: empty_db_def)
next
  case (reachable_exec d s d')
  then show ?case using exec_likes by blast
qed

lemma reachable_profiles:
  "reachable d \<Longrightarrow>
     \<forall>p\<in>set (profiles d). username_length (profiles_username p) \<and> username_format (profiles_username p)"
proof (induction rule: reachable.induct)
  case reachable_empty
  show ?case by (simp add: empty_db_def)
next
  case (reachable_exec d s d')
  then show ?case using exec_profiles by blast
qed

lemma reachable_run: "reachable d \<Longrightarrow> reachable (run s d)"
  by (auto simp: run_def split: sum.splits intro: reachable_exec)

lemma reachable_run_all: "reachable d \<Longrightarrow> reachable (run_all ss d)"
  unfolding run_all_def by (induction ss arbitrary: d) (auto intro: reachable_run)

subsection \<open>The example database, evaluated\<close>

lemma example_db_eq: "example_db =
  \<lparr>auth_users = [4, 3, 2, 1],
    profiles =
      [\<lparr>profiles_id = 3, profiles_username = [67, 97, 114, 111, 108],
          profiles_full_name = Some [], profiles_bio = Some [],
          profiles_avatar_url = Some [], profiles_cover_photo_url = Some [],
          profiles_location = Some [], profiles_website = Some [],
          profiles_created_at = Some 102, profiles_updated_at = Some 102\<rparr>,
       \<lparr>profiles_id = 2, profiles_username = [98, 111, 98, 95, 50],
          profiles_full_name = Some [], profiles_bio = Some [],
          profiles_avatar_url = Some [], profiles_cover_photo_url = Some [],
          profiles_location = Some [], profiles_website = Some [],
          profiles_created_at = Some 101, profiles_updated_at = Some 101\<rparr>,
       \<lparr>profiles_id = 1, profiles_username = [97, 108, 105, 99, 101],
          profiles_full_name = Some [], profiles_bio = Some [],
          profiles_avatar_url = Some [], profiles_cover_photo_url = Some [],
          profiles_location = Some [], profiles_website = Some [],
          profiles_created_at = Some 100, profiles_updated_at = Some 100\<rparr>],
    posts =
      [\<lparr>posts_id = 10, posts_user_id = 1,
          posts_content = [104, 101, 108, 108, 111],
          posts_media_urls = Some [], posts_created_at = Some 110,
          posts_updated_at = Some 110, posts_is_edited = Some False\<rparr>],
    likes =
      [\<lparr>likes_id = 20, likes_user_id = 2, likes_post_id = 10,
          likes_created_at = Some 120\<rparr>],
    comments =
      [\<lparr>comments_id = 31, comments_user_id = 3, comments_post_id = 10,
          comments_parent_id = Some 30, comments_content = [121, 101, 115],
          comments_created_at = Some 131, comments_updated_at = Some 131,
          comments_is_edited = Some False\<rparr>,
       \<lparr>comments_id = 30, comments_user_id = 2, comments_post_id = 10,
          comments_parent_id = None, comments_content = [110, 105, 99, 101],
          comments_created_at = Some 130, comments_updated_at = Some 130,
          comments_is_edited = Some False\<rparr>],
    follows =
      [\<lparr>follows_id = 40, follows_follower_id = 2, follows_following_id = 1,
          follows_created_at = Some 140\<rparr>],
    conversations =
      [\<lparr>conversations_id = 50, conversations_user1_id = 2,
          conversations_user2_id = 1,
          conversations_last_message_at = Some 160,
          conversations_created_at = Some 150\<rparr>],
    messages =
      [\<lparr>messages_id = 60, messages_conversation_id = 50,
          messages_sender_id = 1, messages_content = [104, 105],
          messages_is_read = Some False, messages_created_at = Some 160\<rparr>],
    notifications =
      [\<lparr>notifications_id = 71, notifications_user_id = 1,
          notifications_actor_id = 3,
          notifications_type = [99, 111, 109, 109, 101, 110, 116],
          notifications_post_id = Some 10,
          notifications_comment_id = Some 31,
          notifications_is_read = Some False,
          notifications_created_at = Some 171\<rparr>,
       \<lparr>notifications_id = 70, notifications_user_id = 1,
          notifications_actor_id = 2,
          notifications_type = [108, 105, 107, 101],
          notifications_post_id = Some 10, notifications_comment_id = None,
          notifications_is_read = Some False,
          notifications_created_at = Some 170\<rparr>]\<rparr>"
  unfolding example_db_def example_statements_def run_all_def
  by (simp add: run_def insert_defs row_defs check_defs example_profile_def empty_db_def Let_def
     update_conversation_last_message_def)

lemma example_db_reachable: "reachable example_db"
  unfolding example_db_def by (rule reachable_run_all) (rule reachable_empty)

lemma example_rows:
  "example_conversation \<in> set (conversations example_db)"
  "example_message \<in> set (messages example_db)"
  "messages_conversation_id example_message = conversations_id example_conversation"
  by (simp_all add: example_db_eq example_conversation_def example_message_def text_of_def)

text \<open>
  Deleting the second profile of the example takes along its like, its comment and the
  reply of the third profile to that comment, its follow, its conversation with the
  message the first profile sent there, and both notifications (one caused by it, one
  about the removed reply).
\<close>

lemma example_delete_profile:
  "delete_profile 2 example_db =
     example_db\<lparr>profiles := filter (\<lambda>p. profiles_id p \<noteq> 2) (profiles example_db),
       likes := [], comments := [], follows := [], conversations := [], messages := [],
       notifications := []\<rparr>"
  by code_simp

section \<open>The trigger functions after all migrations\<close>

lemma sorted_migrations:
  "sort_key version migrations =
     [fix_security_and_performance_issues, fix_remaining_security_issues,
      create_social_app_schema, fix_all_security_and_performance_issues]"
  by (simp add: migrations_def create_social_app_schema_def fix_security_and_performance_issues_def
      fix_remaining_security_issues_def fix_all_security_and_performance_issues_def)

lemma final_update_updated_at_column:
  "apply_migrations migrations ''update_updated_at_column'' =
     Some \<lparr>prosecdef = True, proconfig_search_path = Some [''public'', ''pg_temp''],
           prosrc = Set_updated_at_to_now\<rparr>"
  unfolding apply_migrations_def sorted_migrations
  by (simp add: create_social_app_schema_def fix_security_and_performance_issues_def
      fix_remaining_security_issues_def fix_all_security_and_performance_issues_def)

lemma final_update_conversation_last_message:
  "apply_migrations migrations ''update_conversation_last_message'' =
     Some \<lparr>prosecdef = True, proconfig_search_path = Some [''public'', ''pg_temp''],
           prosrc = Set_last_message_at_of_conversation\<rparr>"
  unfolding apply_migrations_def sorted_migrations
  by (simp add: create_social_app_schema_def fix_security_and_performance_issues_def
      fix_remaining_security_issues_def fix_all_security_and_performance_issues_def)

text \<open>
  Without the last migration the functions are as \<^verbatim>\<open>create_social_app_schema\<close> defines
  them, with no \<^verbatim>\<open>search_path\<close> of their own: \<^verbatim>\<open>CREATE OR REPLACE FUNCTION\<close> replaces
  the whole definition, the \<^verbatim>\<open>SET\<close> clause of the earlier migration included.
\<close>

lemma before_last_migration:
  "apply_migrations [create_social_app_schema, fix_security_and_performance_issues,
                     fix_remaining_security_issues] ''update_updated_at_column'' =
     Some \<lparr>prosecdef = False, proconfig_search_path = None, prosrc = Set_updated_at_to_now\<rparr>"
  unfolding apply_migrations_def
  by (simp add: create_social_app_schema_def fix_security_and_performance_issues_def
      fix_remaining_security_issues_def)

text \<open>
  The last migration defines both functions anew, so what it leaves does not depend on
  the functions it finds.
\<close>

lemma last_migration_decides:
  "foldl apply_ddl c (statements fix_all_security_and_performance_issues) ''update_updated_at_column''
     = Some \<lparr>prosecdef = True, proconfig_search_path = Some [''public'', ''pg_temp''],
             prosrc = Set_updated_at_to_now\<rparr>
   \<and> foldl apply_ddl c (statements fix_all_security_and_performance_issues)
       ''update_conversation_last_message''
     = Some \<lparr>prosecdef = True, proconfig_search_path = Some [''public'', ''pg_temp''],
             prosrc = Set_last_message_at_of_conversation\<rparr>"
  by (simp add: fix_all_security_and_performance_issues_def)

text \<open>
  C3: after the migrations have been applied in the order of their timestamps, both
  trigger functions, \<^verbatim>\<open>update_updated_at_column\<close> and
  \<^verbatim>\<open>update_conversation_last_message\<close>, are defined with a \<^verbatim>\<open>search_path\<close> of their
  own, \<^verbatim>\<open>public, pg_temp\<close>, and as \<^verbatim>\<open>SECURITY DEFINER\<close>: whatever search path the
  caller's session has and whoever the caller is, they run with that path and as their
  owner.
\<close>

theorem trigger_functions_pinned:
  "\<exists>f g. apply_migrations migrations ''update_updated_at_column'' = Some f
        \<and> apply_migrations migrations ''update_conversation_last_message'' = Some g
        \<and> prosrc f = Set_updated_at_to_now \<and> prosrc g = Set_last_message_at_of_conversation
        \<and> (\<forall>session_search_path.
              search_path_inside f session_search_path = [''public'', ''pg_temp'']
            \<and> search_path_inside g session_search_path = [''public'', ''pg_temp''])
        \<and> (\<forall>owner caller. runs_as f owner caller = owner \<and> runs_as g owner caller = owner)"
  unfolding final_update_updated_at_column final_update_conversation_last_message
  by (simp add: search_path_inside_def runs_as_def)

section \<open>Uniqueness and check constraints at insert\<close>

text \<open>
  C7: a follow whose follower is the followed profile is rejected (the check
  \<^verbatim>\<open>no_self_follow\<close>), and a follow whose ordered pair (follower, following) is already
  stored is rejected (a uniqueness violation when the two differ); in both cases the
  statement leaves the database, and so the follows table, as it was.
\<close>

theorem follow_insert_rejected:
  "(follows_follower_id_in i = follows_following_id_in i \<longrightarrow>
      insert_follow e i d = Inl CheckViolation \<and> run (Insert_follow e i) d = d)
   \<and> ((follows_follower_id_in i, follows_following_id_in i)
         \<in> set (map (\<lambda>f. (follows_follower_id f, follows_following_id f)) (follows d)) \<longrightarrow>
      (\<exists>err. insert_follow e i d = Inl err)
      \<and> (follows_follower_id_in i \<noteq> follows_following_id_in i \<longrightarrow>
           insert_follow e i d = Inl UniqueViolation)
      \<and> run (Insert_follow e i) d = d)"
  by (auto simp: insert_follow_def follows_new_row_def no_self_follow_def run_def Let_def)

theorem follow_insert_rejected_witness:
  "insert_follow \<lparr>now = 300, gen_random_uuid = 41\<rparr>
     \<lparr>follows_id_in = None, follows_follower_id_in = 3, follows_following_id_in = 3,
      follows_created_at_in = Omitted\<rparr> example_db = Inl CheckViolation
   \<and> run (Insert_follow \<lparr>now = 300, gen_random_uuid = 41\<rparr>
     \<lparr>follows_id_in = None, follows_follower_id_in = 3, follows_following_id_in = 3,
      follows_created_at_in = Omitted\<rparr>) example_db = example_db
   \<and> insert_follow \<lparr>now = 300, gen_random_uuid = 41\<rparr>
     \<lparr>follows_id_in = None, follows_follower_id_in = 2, follows_following_id_in = 1,
      follows_created_at_in = Omitted\<rparr> example_db = Inl UniqueViolation
   \<and> run (Insert_follow \<lparr>now = 300, gen_random_uuid = 41\<rparr>
     \<lparr>follows_id_in = None, follows_follower_id_in = 2, follows_following_id_in = 1,
      follows_created_at_in = Omitted\<rparr>) example_db = example_db"
proof -
  let ?e = "\<lparr>now = 300, gen_random_uuid = 41\<rparr>"
  let ?self = "\<lparr>follows_id_in = None, follows_follower_id_in = 3, follows_following_id_in = 3,
      follows_created_at_in = Omitted\<rparr>"
  let ?dup = "\<lparr>follows_id_in = None, follows_follower_id_in = 2, follows_following_id_in = 1,
      follows_created_at_in = Omitted\<rparr>"
  have stored: "(follows_follower_id_in ?dup, follows_following_id_in ?dup)
         \<in> set (map (\<lambda>f. (follows_follower_id f, follows_following_id f)) (follows example_db))"
    by (simp add: example_db_eq)
  from follow_insert_rejected[of ?self ?e example_db]
  have "insert_follow ?e ?self example_db = Inl CheckViolation
      \<and> run (Insert_follow ?e ?self) example_db = example_db"
    by simp
  moreover from follow_insert_rejected[of ?dup ?e example_db] stored
  have "insert_follow ?e ?dup example_db = Inl UniqueViolation
      \<and> run (Insert_follow ?e ?dup) example_db = example_db"
    by simp
  ultimately show ?thesis by blast
qed

text \<open>
  C6: in every reachable state at most one row of likes has a given (user, post) pair,
  and inserting a like whose pair is already stored fails with a uniqueness violation
  and leaves the likes table unchanged.
\<close>

theorem one_like_per_user_and_post:
  assumes "reachable d"
  shows "length (filter (\<lambda>l. likes_user_id l = u \<and> likes_post_id l = p) (likes d)) \<le> 1
       \<and> ((\<exists>l\<in>set (likes d). likes_user_id l = u \<and> likes_post_id l = p) \<longrightarrow>
            (\<forall>e i. likes_user_id_in i = u \<and> likes_post_id_in i = p \<longrightarrow>
               insert_like e i d = Inl UniqueViolation
             \<and> likes (run (Insert_like e i) d) = likes d))"
proof -
  from assms have "distinct (map (\<lambda>l. (likes_user_id l, likes_post_id l)) (likes d))"
    by (rule reachable_likes)
  then have "length (filter (\<lambda>l. (likes_user_id l, likes_post_id l) = (u, p)) (likes d)) \<le> 1"
    by (rule length_filter_key_le_1)
  then have one: "length (filter (\<lambda>l. likes_user_id l = u \<and> likes_post_id l = p) (likes d)) \<le> 1"
    by simp
  have dup: "insert_like e i d = Inl UniqueViolation \<and> likes (run (Insert_like e i) d) = likes d"
    if "l \<in> set (likes d)" "likes_user_id l = u" "likes_post_id l = p"
       "likes_user_id_in i = u" "likes_post_id_in i = p" for l e i
  proof -
    from that have "(likes_user_id (likes_new_row e i), likes_post_id (likes_new_row e i))
        \<in> set (map (\<lambda>l. (likes_user_id l, likes_post_id l)) (likes d))"
      by (force simp: likes_new_row_def)
    then show ?thesis by (simp add: insert_like_def run_def Let_def)
  qed
  show ?thesis using one dup by blast
qed

theorem one_like_per_user_and_post_witness:
  "reachable example_db
   \<and> length (filter (\<lambda>l. likes_user_id l = 2 \<and> likes_post_id l = 10) (likes example_db)) \<le> 1
   \<and> insert_like \<lparr>now = 300, gen_random_uuid = 21\<rparr>
        \<lparr>likes_id_in = None, likes_user_id_in = 2, likes_post_id_in = 10,
         likes_created_at_in = Omitted\<rparr> example_db = Inl UniqueViolation
   \<and> likes (run (Insert_like \<lparr>now = 300, gen_random_uuid = 21\<rparr>
        \<lparr>likes_id_in = None, likes_user_id_in = 2, likes_post_id_in = 10,
         likes_created_at_in = Omitted\<rparr>) example_db) = likes example_db"
proof -
  note T = one_like_per_user_and_post[OF example_db_reachable, of 2 10]
  have ex: "\<exists>l\<in>set (likes example_db). likes_user_id l = 2 \<and> likes_post_id l = 10"
    by (simp add: example_db_eq)
  from T ex show ?thesis using example_db_reachable by simp
qed

text \<open>
  C4: in every reachable state, for distinct profiles A and B at most one conversation
  has the participants A and B, whichever of them is \<^verbatim>\<open>user1_id\<close>; once one is stored,
  inserting another for the same two participants, in either order, fails with a
  uniqueness violation; and a conversation whose two participants are the same profile
  is rejected by its check.
\<close>

theorem one_conversation_per_pair:
  assumes "reachable d" and "A \<noteq> B"
  shows "length (filter (\<lambda>c. {conversations_user1_id c, conversations_user2_id c} = {A, B})
                  (conversations d)) \<le> 1
       \<and> ((\<exists>c\<in>set (conversations d). {conversations_user1_id c, conversations_user2_id c} = {A, B}) \<longrightarrow>
            (\<forall>e i. {conversations_user1_id_in i, conversations_user2_id_in i} = {A, B} \<longrightarrow>
               insert_conversation e i d = Inl UniqueViolation
             \<and> run (Insert_conversation e i) d = d))
       \<and> (\<forall>e i. conversations_user1_id_in i = conversations_user2_id_in i \<longrightarrow>
             insert_conversation e i d = Inl CheckViolation
           \<and> run (Insert_conversation e i) d = d)"
proof -
  from assms(1) have "distinct (map conversations_users_idx (conversations d))"
    using reachable_conversations by blast
  then have "length (filter (\<lambda>c. conversations_users_idx c = (min A B, max A B)) (conversations d)) \<le> 1"
    by (rule length_filter_key_le_1)
  then have one: "length (filter (\<lambda>c. {conversations_user1_id c, conversations_user2_id c} = {A, B})
                  (conversations d)) \<le> 1"
    by (simp add: users_idx_eq_iff)
  have dup: "insert_conversation e i d = Inl UniqueViolation \<and> run (Insert_conversation e i) d = d"
    if "c \<in> set (conversations d)" "{conversations_user1_id c, conversations_user2_id c} = {A, B}"
       "{conversations_user1_id_in i, conversations_user2_id_in i} = {A, B}" for c e i
  proof -
    let ?r = "conversations_new_row e i"
    from that(3) have "{conversations_user1_id ?r, conversations_user2_id ?r} = {A, B}"
      by (simp add: conversations_new_row_def)
    then have "conversations_users_idx ?r = (min A B, max A B)" by (simp add: users_idx_eq_iff)
    moreover from that(2) have "conversations_users_idx c = (min A B, max A B)"
      by (simp add: users_idx_eq_iff)
    ultimately have "conversations_users_idx ?r = conversations_users_idx c" by simp
    then have "conversations_users_idx ?r \<in> set (map conversations_users_idx (conversations d))"
      using that(1) by (simp add: image_iff) blast
    moreover from that(3) assms(2) have "different_users ?r"
      by (auto simp: different_users_def conversations_new_row_def doubleton_eq_iff)
    ultimately show ?thesis
      by (simp add: insert_conversation_def run_def Let_def)
  qed
  have self: "insert_conversation e i d = Inl CheckViolation \<and> run (Insert_conversation e i) d = d"
    if "conversations_user1_id_in i = conversations_user2_id_in i" for e i
    using that
    by (simp add: insert_conversation_def run_def Let_def different_users_def conversations_new_row_def)
  show ?thesis using one dup self by blast
qed

theorem one_conversation_per_pair_witness:
  "reachable example_db \<and> (1::uuid) \<noteq> 2
   \<and> length (filter (\<lambda>c. {conversations_user1_id c, conversations_user2_id c} = {1, 2})
               (conversations example_db)) \<le> 1
   \<and> insert_conversation \<lparr>now = 300, gen_random_uuid = 51\<rparr>
        \<lparr>conversations_id_in = None, conversations_user1_id_in = 1, conversations_user2_id_in = 2,
         conversations_last_message_at_in = Omitted, conversations_created_at_in = Omitted\<rparr>
        example_db = Inl UniqueViolation
   \<and> insert_conversation \<lparr>now = 300, gen_random_uuid = 51\<rparr>
        \<lparr>conversations_id_in = None, conversations_user1_id_in = 2, conversations_user2_id_in = 1,
         conversations_last_message_at_in = Omitted, conversations_created_at_in = Omitted\<rparr>
        example_db = Inl UniqueViolation
   \<and> insert_conversation \<lparr>now = 300, gen_random_uuid = 51\<rparr>
        \<lparr>conversations_id_in = None, conversations_user1_id_in = 3, conversations_user2_id_in = 3,
         conversations_last_message_at_in = Omitted, conversations_created_at_in = Omitted\<rparr>
        example_db = Inl CheckViolation"
proof -
  have ne: "(1::uuid) \<noteq> 2" by simp
  note T = one_conversation_per_pair[OF example_db_reachable ne]
  have "{conversations_user1_id example_conversation, conversations_user2_id example_conversation}
      = {1, 2}"
    by (auto simp: example_conversation_def)
  with example_rows(1)
  have ex: "\<exists>c\<in>set (conversations example_db).
      {conversations_user1_id c, conversations_user2_id c} = {1, 2}" by blast
  have sets: "{1, 2} = {1, 2::uuid}" "{2, 1} = {1, 2::uuid}" by auto
  from T ex sets show ?thesis using example_db_reachable by simp
qed

section \<open>Who may read and write messages\<close>

text \<open>
  C1: a caller who is neither participant of a conversation is denied on every message
  of that conversation: the \<^verbatim>\<open>SELECT\<close> policy is false on it, so it is in none of the
  caller's reads; the \<^verbatim>\<open>UPDATE\<close> policy is false on it, so no update of the caller
  changes it; and any insert of the caller into the conversation fails the
  \<^verbatim>\<open>INSERT\<close> policy, whatever sender it names.
\<close>

theorem non_participant_denied:
  assumes "reachable d" and "c \<in> set (conversations d)"
    and "uid \<noteq> conversations_user1_id c" and "uid \<noteq> conversations_user2_id c"
  shows "(\<forall>m\<in>set (messages d). messages_conversation_id m = conversations_id c \<longrightarrow>
            \<not> messages_select_using uid d m \<and> m \<notin> set (select_messages_as uid d)
          \<and> \<not> messages_update_using uid d m
          \<and> (\<forall>new. messages_id new = messages_id m \<longrightarrow> update_message_as uid new d = Inr d))
       \<and> (\<forall>e i. messages_conversation_id_in i = conversations_id c \<longrightarrow>
            insert_message_as uid e i d = Inl RlsViolation)"
proof -
  from assms(1) have ids: "distinct (map conversations_id (conversations d))"
    using reachable_conversations by blast
  from assms(1) have mids: "distinct (map messages_id (messages d))"
    by (rule reachable_messages)
  have deny: "\<not> in_own_conversation uid d m" if "messages_conversation_id m = conversations_id c" for m
  proof
    assume "in_own_conversation uid d m"
    then obtain c' where c': "c' \<in> set (conversations d)"
      "conversations_id c' = messages_conversation_id m"
      "conversations_user1_id c' = uid \<or> conversations_user2_id c' = uid"
      by (auto simp: in_own_conversation_def select_conversations_as_def list_ex_iff)
    with that have "conversations_id c' = conversations_id c" by simp
    with ids c'(1) assms(2) have "c' = c" by (rule distinct_key_inj)
    with c'(3) assms(3,4) show False by auto
  qed
  have upd: "update_message_as uid new d = Inr d"
    if "m \<in> set (messages d)" "messages_conversation_id m = conversations_id c"
       "messages_id new = messages_id m" for m new
  proof -
    from mids that(1) have "find (\<lambda>y. messages_id y = messages_id m) (messages d) = Some m"
      by (rule find_by_key)
    with that deny[of m] show ?thesis
      by (simp add: update_message_as_def messages_select_using_def)
  qed
  have ins: "insert_message_as uid e i d = Inl RlsViolation"
    if "messages_conversation_id_in i = conversations_id c" for e i
    using that deny[of "messages_new_row e i"]
    by (simp add: insert_message_as_def messages_insert_check_def messages_new_row_def)
  show ?thesis
    using deny upd ins
    by (auto simp: messages_select_using_def messages_update_using_def select_messages_as_def)
qed

theorem non_participant_denied_witness:
  "reachable example_db
   \<and> example_conversation \<in> set (conversations example_db)
   \<and> 3 \<noteq> conversations_user1_id example_conversation
   \<and> 3 \<noteq> conversations_user2_id example_conversation
   \<and> \<not> messages_select_using 3 example_db example_message
   \<and> example_message \<notin> set (select_messages_as 3 example_db)
   \<and> \<not> messages_update_using 3 example_db example_message
   \<and> update_message_as 3 (example_message\<lparr>messages_is_read := Some True\<rparr>) example_db
       = Inr example_db
   \<and> insert_message_as 3 \<lparr>now = 200, gen_random_uuid = 61\<rparr>
        \<lparr>messages_id_in = None, messages_conversation_id_in = 50, messages_sender_id_in = 1,
         messages_content_in = text_of ''x'', messages_is_read_in = Omitted,
         messages_created_at_in = Omitted\<rparr> example_db = Inl RlsViolation"
proof -
  have u: "3 \<noteq> conversations_user1_id example_conversation"
    "3 \<noteq> conversations_user2_id example_conversation"
    by (simp_all add: example_conversation_def)
  note T = non_participant_denied[OF example_db_reachable example_rows(1) u]
  from T example_rows(2,3)
  have "\<not> messages_select_using 3 example_db example_message
      \<and> example_message \<notin> set (select_messages_as 3 example_db)
      \<and> \<not> messages_update_using 3 example_db example_message
      \<and> update_message_as 3 (example_message\<lparr>messages_is_read := Some True\<rparr>) example_db
          = Inr example_db"
    by simp
  moreover from T
  have "insert_message_as 3 \<lparr>now = 200, gen_random_uuid = 61\<rparr>
        \<lparr>messages_id_in = None, messages_conversation_id_in = 50, messages_sender_id_in = 1,
         messages_content_in = text_of ''x'', messages_is_read_in = Omitted,
         messages_created_at_in = Omitted\<rparr> example_db = Inl RlsViolation"
    by (simp add: example_conversation_def)
  ultimately show ?thesis using example_db_reachable example_rows(1) u by blast
qed

text \<open>
  C9: a participant of a conversation passes the \<^verbatim>\<open>UPDATE\<close> policy on every message
  of the conversation, sender or not, and the policy restricts no column: the row the
  update proposes passes whenever its \<^verbatim>\<open>conversation_id\<close> is a conversation of the
  caller, whatever its content, read flag, sender and timestamp. So the participant may
  rewrite the other participant's message; the update goes through when the new row also
  meets the table's constraints.
\<close>

theorem participant_may_update_any_message:
  assumes "c \<in> set (conversations d)"
    and "uid = conversations_user1_id c \<or> uid = conversations_user2_id c"
    and "m \<in> set (messages d)" and "messages_conversation_id m = conversations_id c"
  shows "messages_update_using uid d m
       \<and> (\<forall>new c'. c' \<in> set (conversations d)
                \<and> (uid = conversations_user1_id c' \<or> uid = conversations_user2_id c')
                \<and> messages_conversation_id new = conversations_id c' \<longrightarrow>
             messages_update_check uid d new)
       \<and> (reachable d \<longrightarrow>
           (\<forall>new. messages_id new = messages_id m
                \<and> messages_conversation_id new = messages_conversation_id m
                \<and> message_length (messages_content new)
                \<and> messages_sender_id new \<in> set (map profiles_id (profiles d)) \<longrightarrow>
              update_message_as uid new d =
                Inr (d\<lparr>messages := map (\<lambda>x. if messages_id x = messages_id m then new else x)
                                       (messages d)\<rparr>)))"
proof -
  have own: "in_own_conversation uid d x"
    if "c' \<in> set (conversations d)"
       "uid = conversations_user1_id c' \<or> uid = conversations_user2_id c'"
       "messages_conversation_id x = conversations_id c'" for x c'
    using that
    by (auto simp: in_own_conversation_def select_conversations_as_def list_ex_iff
        conversations_select_using_def)
  note mine = own[OF assms(1,2)]
  have op: "update_message_as uid new d =
      Inr (d\<lparr>messages := map (\<lambda>x. if messages_id x = messages_id m then new else x) (messages d)\<rparr>)"
    if "reachable d" "messages_id new = messages_id m"
       "messages_conversation_id new = messages_conversation_id m"
       "message_length (messages_content new)"
       "messages_sender_id new \<in> set (map profiles_id (profiles d))" for new
  proof -
    from that(1) have "distinct (map messages_id (messages d))" by (rule reachable_messages)
    then have "find (\<lambda>y. messages_id y = messages_id m) (messages d) = Some m"
      using assms(3) by (rule find_by_key)
    with that mine[of m] mine[of new] assms(4) show ?thesis
      by (simp add: update_message_as_def update_message_def messages_select_using_def
          messages_update_using_def messages_update_check_def)
  qed
  have "messages_update_using uid d m"
    using mine[of m] assms(4) by (simp add: messages_update_using_def)
  moreover have "\<forall>new c'. c' \<in> set (conversations d)
                \<and> (uid = conversations_user1_id c' \<or> uid = conversations_user2_id c')
                \<and> messages_conversation_id new = conversations_id c' \<longrightarrow>
             messages_update_check uid d new"
    unfolding messages_update_check_def using own by blast
  ultimately show ?thesis using op by blast
qed

theorem participant_may_update_any_message_witness:
  "example_conversation \<in> set (conversations example_db)
   \<and> 2 = conversations_user1_id example_conversation
   \<and> example_message \<in> set (messages example_db)
   \<and> messages_sender_id example_message \<noteq> 2
   \<and> reachable example_db
   \<and> messages_update_using 2 example_db example_message
   \<and> messages_update_check 2 example_db
        (example_message\<lparr>messages_content := text_of ''edited'', messages_is_read := Some True\<rparr>)
   \<and> update_message_as 2
        (example_message\<lparr>messages_content := text_of ''edited'', messages_is_read := Some True\<rparr>)
        example_db
       = Inr (example_db\<lparr>messages :=
           [example_message\<lparr>messages_content := text_of ''edited'', messages_is_read := Some True\<rparr>]\<rparr>)"
proof -
  let ?new = "example_message\<lparr>messages_content := text_of ''edited'', messages_is_read := Some True\<rparr>"
  have u: "2 = conversations_user1_id example_conversation \<or> 2 = conversations_user2_id example_conversation"
    by (simp add: example_conversation_def)
  note T = participant_may_update_any_message[OF example_rows(1) u example_rows(2,3)]
  have new: "messages_id ?new = messages_id example_message"
    "messages_conversation_id ?new = messages_conversation_id example_message"
    "message_length (messages_content ?new)"
    "messages_sender_id ?new \<in> set (map profiles_id (profiles example_db))"
    by (simp_all add: example_message_def message_length_def char_length_def text_of_def example_db_eq)
  have "map (\<lambda>x. if messages_id x = messages_id example_message then ?new else x) (messages example_db)
      = [?new]"
    by (simp add: example_db_eq example_message_def)
  with T new example_db_reachable
  have "update_message_as 2 ?new example_db = Inr (example_db\<lparr>messages := [?new]\<rparr>)"
    by simp
  moreover from T have "messages_update_using 2 example_db example_message" by simp
  moreover have "messages_update_check 2 example_db ?new"
    by (rule T[THEN conjunct2, THEN conjunct1, rule_format, where c' = example_conversation])
      (use example_rows(1,3) u new(2) in simp)
  moreover have "2 = conversations_user1_id example_conversation"
    "messages_sender_id example_message \<noteq> 2"
    by (simp_all add: example_conversation_def example_message_def)
  ultimately show ?thesis using example_db_reachable example_rows(1,2) by blast
qed

section \<open>Deleting a profile\<close>

lemma cascade_comments_subset: "set (cascade_comments dead cs) \<subseteq> set cs"
proof (induction dead cs rule: cascade_comments.induct)
  case (1 dead cs)
  show ?case
  proof (cases "filter (reply_to dead) cs = []")
    case True
    then show ?thesis by (simp add: cascade_comments.simps)
  next
    case False
    with "1" have "set (cascade_comments (map comments_id (filter (reply_to dead) cs))
                      (filter (\<lambda>c. \<not> reply_to dead c) cs)) \<subseteq> set (filter (\<lambda>c. \<not> reply_to dead c) cs)"
      by simp
    with False show ?thesis by (subst cascade_comments.simps) auto
  qed
qed

lemma delete_comments_where_frame:
  "profiles (delete_comments_where P d) = profiles d"
  "posts (delete_comments_where P d) = posts d"
  "likes (delete_comments_where P d) = likes d"
  "follows (delete_comments_where P d) = follows d"
  "conversations (delete_comments_where P d) = conversations d"
  "messages (delete_comments_where P d) = messages d"
  by (simp_all add: delete_comments_where_def Let_def)

lemma delete_comments_where_comments:
  "set (comments (delete_comments_where P d)) \<subseteq> {c \<in> set (comments d). \<not> P c}"
  using cascade_comments_subset[of "map comments_id (filter P (comments d))" "filter (\<lambda>c. \<not> P c) (comments d)"]
  by (auto simp: delete_comments_where_def Let_def)

lemma delete_comments_where_notifications:
  "set (notifications (delete_comments_where P d)) \<subseteq> set (notifications d)"
  by (auto simp: delete_comments_where_def Let_def)

lemma delete_posts_where_frame:
  "profiles (delete_posts_where P d) = profiles d"
  "posts (delete_posts_where P d) = filter (\<lambda>p. \<not> P p) (posts d)"
  "follows (delete_posts_where P d) = follows d"
  "conversations (delete_posts_where P d) = conversations d"
  "messages (delete_posts_where P d) = messages d"
  by (simp_all add: delete_posts_where_def Let_def delete_comments_where_frame)

lemma delete_posts_where_likes:
  "set (likes (delete_posts_where P d)) \<subseteq> set (likes d)"
  by (auto simp: delete_posts_where_def Let_def delete_comments_where_frame)

lemma delete_posts_where_comments:
  "set (comments (delete_posts_where P d)) \<subseteq> set (comments d)"
  using delete_comments_where_comments by (fastforce simp: delete_posts_where_def Let_def)

lemma delete_posts_where_notifications:
  "set (notifications (delete_posts_where P d)) \<subseteq> set (notifications d)"
  using delete_comments_where_notifications by (fastforce simp: delete_posts_where_def Let_def)

lemma delete_conversations_where_frame:
  "profiles (delete_conversations_where P d) = profiles d"
  "posts (delete_conversations_where P d) = posts d"
  "likes (delete_conversations_where P d) = likes d"
  "comments (delete_conversations_where P d) = comments d"
  "follows (delete_conversations_where P d) = follows d"
  "notifications (delete_conversations_where P d) = notifications d"
  "conversations (delete_conversations_where P d) = filter (\<lambda>c. \<not> P c) (conversations d)"
  by (simp_all add: delete_conversations_where_def Let_def)

lemma delete_conversations_where_messages:
  "set (messages (delete_conversations_where P d)) \<subseteq> set (messages d)"
  by (auto simp: delete_conversations_where_def Let_def)

text \<open>
  C2: deleting the row of a profile removes every row that references the profile
  through a foreign key: afterwards no profile has its key, no post, like or comment has
  it as \<^verbatim>\<open>user_id\<close>, no follow as follower or following, no conversation as either
  participant, no message as sender, and no notification as recipient or actor.
\<close>

theorem delete_profile_cascade:
  assumes "k \<in> set (map profiles_id (profiles d))"
  shows "(\<forall>p\<in>set (profiles (delete_profile k d)). profiles_id p \<noteq> k)
       \<and> (\<forall>p\<in>set (posts (delete_profile k d)). posts_user_id p \<noteq> k)
       \<and> (\<forall>l\<in>set (likes (delete_profile k d)). likes_user_id l \<noteq> k)
       \<and> (\<forall>c\<in>set (comments (delete_profile k d)). comments_user_id c \<noteq> k)
       \<and> (\<forall>f\<in>set (follows (delete_profile k d)).
             follows_follower_id f \<noteq> k \<and> follows_following_id f \<noteq> k)
       \<and> (\<forall>c\<in>set (conversations (delete_profile k d)).
             conversations_user1_id c \<noteq> k \<and> conversations_user2_id c \<noteq> k)
       \<and> (\<forall>m\<in>set (messages (delete_profile k d)). messages_sender_id m \<noteq> k)
       \<and> (\<forall>n\<in>set (notifications (delete_profile k d)).
             notifications_user_id n \<noteq> k \<and> notifications_actor_id n \<noteq> k)"
proof -
  define d1 where "d1 = d\<lparr>profiles := filter (\<lambda>p. profiles_id p \<noteq> k) (profiles d)\<rparr>"
  define d2 where "d2 = delete_posts_where (\<lambda>p. posts_user_id p = k) d1"
  define d3 where "d3 = d2\<lparr>likes := filter (\<lambda>l. likes_user_id l \<noteq> k) (likes d2)\<rparr>"
  define d4 where "d4 = delete_comments_where (\<lambda>c. comments_user_id c = k) d3"
  define d5 where "d5 = d4\<lparr>follows := filter (\<lambda>f. follows_follower_id f \<noteq> k \<and> follows_following_id f \<noteq> k)
                                 (follows d4)\<rparr>"
  define d6 where "d6 = delete_conversations_where
                   (\<lambda>c. conversations_user1_id c = k \<or> conversations_user2_id c = k) d5"
  define d7 where "d7 = d6\<lparr>messages := filter (\<lambda>m. messages_sender_id m \<noteq> k) (messages d6)\<rparr>"
  define d8 where "d8 = d7\<lparr>notifications :=
                 filter (\<lambda>n. notifications_user_id n \<noteq> k \<and> notifications_actor_id n \<noteq> k)
                   (notifications d7)\<rparr>"
  from assms have eq: "delete_profile k d = d8"
    by (simp add: delete_profile_def Let_def d1_def d2_def d3_def d4_def d5_def d6_def d7_def d8_def)
  have "profiles d8 = filter (\<lambda>p. profiles_id p \<noteq> k) (profiles d)"
    by (simp add: d8_def d7_def d6_def d5_def d4_def d3_def d2_def d1_def
        delete_conversations_where_frame delete_comments_where_frame delete_posts_where_frame)
  then have 1: "\<forall>p\<in>set (profiles d8). profiles_id p \<noteq> k" by simp
  have "posts d8 = filter (\<lambda>p. posts_user_id p \<noteq> k) (posts d1)"
    by (simp add: d8_def d7_def d6_def d5_def d4_def d3_def d2_def
        delete_conversations_where_frame delete_comments_where_frame delete_posts_where_frame)
  then have 2: "\<forall>p\<in>set (posts d8). posts_user_id p \<noteq> k" by simp
  have "likes d8 = filter (\<lambda>l. likes_user_id l \<noteq> k) (likes d2)"
    by (simp add: d8_def d7_def d6_def d5_def d4_def d3_def
        delete_conversations_where_frame delete_comments_where_frame)
  then have 3: "\<forall>l\<in>set (likes d8). likes_user_id l \<noteq> k" by simp
  have "comments d8 = comments d4"
    by (simp add: d8_def d7_def d6_def d5_def delete_conversations_where_frame)
  with delete_comments_where_comments[of "\<lambda>c. comments_user_id c = k" d3]
  have 4: "\<forall>c\<in>set (comments d8). comments_user_id c \<noteq> k"
    by (auto simp: d4_def)
  have "follows d8 = filter (\<lambda>f. follows_follower_id f \<noteq> k \<and> follows_following_id f \<noteq> k) (follows d4)"
    by (simp add: d8_def d7_def d6_def d5_def delete_conversations_where_frame)
  then have 5: "\<forall>f\<in>set (follows d8). follows_follower_id f \<noteq> k \<and> follows_following_id f \<noteq> k"
    by simp
  have "conversations d8 =
      filter (\<lambda>c. \<not> (conversations_user1_id c = k \<or> conversations_user2_id c = k)) (conversations d5)"
    by (simp add: d8_def d7_def d6_def delete_conversations_where_frame)
  then have 6: "\<forall>c\<in>set (conversations d8). conversations_user1_id c \<noteq> k \<and> conversations_user2_id c \<noteq> k"
    by simp
  have "messages d8 = filter (\<lambda>m. messages_sender_id m \<noteq> k) (messages d6)"
    by (simp add: d8_def d7_def)
  then have 7: "\<forall>m\<in>set (messages d8). messages_sender_id m \<noteq> k" by simp
  have 8: "\<forall>n\<in>set (notifications d8). notifications_user_id n \<noteq> k \<and> notifications_actor_id n \<noteq> k"
    by (simp add: d8_def)
  show ?thesis unfolding eq using 1 2 3 4 5 6 7 8 by blast
qed

theorem delete_profile_cascade_witness:
  "2 \<in> set (map profiles_id (profiles example_db))
   \<and> list_all (\<lambda>p. profiles_id p \<noteq> 2) (profiles (delete_profile 2 example_db))
   \<and> list_all (\<lambda>p. posts_user_id p \<noteq> 2) (posts (delete_profile 2 example_db))
   \<and> list_all (\<lambda>l. likes_user_id l \<noteq> 2) (likes (delete_profile 2 example_db))
   \<and> list_all (\<lambda>c. comments_user_id c \<noteq> 2) (comments (delete_profile 2 example_db))
   \<and> list_all (\<lambda>f. follows_follower_id f \<noteq> 2 \<and> follows_following_id f \<noteq> 2)
        (follows (delete_profile 2 example_db))
   \<and> list_all (\<lambda>c. conversations_user1_id c \<noteq> 2 \<and> conversations_user2_id c \<noteq> 2)
        (conversations (delete_profile 2 example_db))
   \<and> list_all (\<lambda>m. messages_sender_id m \<noteq> 2) (messages (delete_profile 2 example_db))
   \<and> list_all (\<lambda>n. notifications_user_id n \<noteq> 2 \<and> notifications_actor_id n \<noteq> 2)
        (notifications (delete_profile 2 example_db))"
proof -
  have h: "2 \<in> set (map profiles_id (profiles example_db))" by (simp add: example_db_eq)
  from delete_profile_cascade[OF h] h show ?thesis unfolding list_all_iff by blast
qed

section \<open>The last-message time of a conversation\<close>

text \<open>
  C5: when the insert of a message succeeds, the message is stored, its conversation
  exists and every row of that conversation has \<^verbatim>\<open>last_message_at\<close> equal to the
  \<^verbatim>\<open>created_at\<close> of the message, all in the one state the statement commits; when the
  insert fails, the database, conversations included, is what it was.
\<close>

theorem message_insert_stamps_conversation:
  "(\<forall>d'. insert_message e i d = Inr d' \<longrightarrow>
      messages d' = messages_new_row e i # messages d
    \<and> (\<exists>c\<in>set (conversations d'). conversations_id c = messages_conversation_id_in i)
    \<and> (\<forall>c\<in>set (conversations d'). conversations_id c = messages_conversation_id_in i \<longrightarrow>
          conversations_last_message_at c = messages_created_at (messages_new_row e i))
    \<and> run (Insert_message e i) d = d')
   \<and> (\<forall>err. insert_message e i d = Inl err \<longrightarrow> run (Insert_message e i) d = d)"
proof (intro conjI allI impI)
  fix err assume "insert_message e i d = Inl err"
  then show "run (Insert_message e i) d = d" by (simp add: run_def)
next
  fix d' assume ok: "insert_message e i d = Inr d'"
  let ?r = "messages_new_row e i"
  let ?g = "\<lambda>c. if conversations_id c = messages_conversation_id ?r
                    then c\<lparr>conversations_last_message_at := messages_created_at ?r\<rparr> else c"
  have cid: "messages_conversation_id ?r = messages_conversation_id_in i"
    by (simp add: messages_new_row_def)
  from ok have known: "messages_conversation_id ?r \<in> set (map conversations_id (conversations d))"
    and d': "d' = update_conversation_last_message ?r (d\<lparr>messages := ?r # messages d\<rparr>)"
    by (auto simp: insert_message_def Let_def split: if_splits)
  from d' have convs: "conversations d' = map ?g (conversations d)"
    by (simp add: update_conversation_last_message_def)
  from d' show "messages d' = ?r # messages d"
    by (simp add: update_conversation_last_message_def)
  from ok show "run (Insert_message e i) d = d'" by (simp add: run_def)
  from known obtain x where x: "x \<in> set (conversations d)"
    "conversations_id x = messages_conversation_id ?r" by auto
  then have "?g x \<in> set (conversations d')" and "conversations_id (?g x) = messages_conversation_id_in i"
    unfolding convs cid by simp_all
  then show "\<exists>c\<in>set (conversations d'). conversations_id c = messages_conversation_id_in i"
    by blast
  show "\<forall>c\<in>set (conversations d'). conversations_id c = messages_conversation_id_in i \<longrightarrow>
          conversations_last_message_at c = messages_created_at ?r"
  proof (intro ballI impI)
    fix c assume c: "c \<in> set (conversations d')" "conversations_id c = messages_conversation_id_in i"
    from c(1) obtain y where y: "y \<in> set (conversations d)" "c = ?g y"
      unfolding convs by auto
    show "conversations_last_message_at c = messages_created_at ?r"
    proof (cases "conversations_id y = messages_conversation_id ?r")
      case True
      with y show ?thesis by simp
    next
      case False
      with y c(2) cid show ?thesis by simp
    qed
  qed
qed

theorem message_insert_stamps_conversation_witness:
  "insert_message \<lparr>now = 200, gen_random_uuid = 61\<rparr>
     \<lparr>messages_id_in = None, messages_conversation_id_in = 50, messages_sender_id_in = 2,
      messages_content_in = text_of ''hello'', messages_is_read_in = Omitted,
      messages_created_at_in = Omitted\<rparr> example_db
     = Inr (example_db\<lparr>messages :=
              \<lparr>messages_id = 61, messages_conversation_id = 50, messages_sender_id = 2,
               messages_content = text_of ''hello'', messages_is_read = Some False,
               messages_created_at = Some 200\<rparr> # messages example_db,
            conversations := [example_conversation\<lparr>conversations_last_message_at := Some 200\<rparr>]\<rparr>)
   \<and> list_all (\<lambda>c. conversations_last_message_at c = Some 200)
        (conversations (run (Insert_message \<lparr>now = 200, gen_random_uuid = 61\<rparr>
     \<lparr>messages_id_in = None, messages_conversation_id_in = 50, messages_sender_id_in = 2,
      messages_content_in = text_of ''hello'', messages_is_read_in = Omitted,
      messages_created_at_in = Omitted\<rparr>) example_db))
   \<and> insert_message \<lparr>now = 200, gen_random_uuid = 61\<rparr>
     \<lparr>messages_id_in = None, messages_conversation_id_in = 99, messages_sender_id_in = 2,
      messages_content_in = text_of ''hello'', messages_is_read_in = Omitted,
      messages_created_at_in = Omitted\<rparr> example_db = Inl ForeignKeyViolation
   \<and> run (Insert_message \<lparr>now = 200, gen_random_uuid = 61\<rparr>
     \<lparr>messages_id_in = None, messages_conversation_id_in = 99, messages_sender_id_in = 2,
      messages_content_in = text_of ''hello'', messages_is_read_in = Omitted,
      messages_created_at_in = Omitted\<rparr>) example_db = example_db"
proof -
  let ?e = "\<lparr>now = 200, gen_random_uuid = 61\<rparr>"
  let ?i = "\<lparr>messages_id_in = None, messages_conversation_id_in = 50, messages_sender_id_in = 2,
      messages_content_in = text_of ''hello'', messages_is_read_in = Omitted,
      messages_created_at_in = Omitted\<rparr>"
  let ?bad = "\<lparr>messages_id_in = None, messages_conversation_id_in = 99, messages_sender_id_in = 2,
      messages_content_in = text_of ''hello'', messages_is_read_in = Omitted,
      messages_created_at_in = Omitted\<rparr>"
  let ?d' = "example_db\<lparr>messages :=
              \<lparr>messages_id = 61, messages_conversation_id = 50, messages_sender_id = 2,
               messages_content = text_of ''hello'', messages_is_read = Some False,
               messages_created_at = Some 200\<rparr> # messages example_db,
            conversations := [example_conversation\<lparr>conversations_last_message_at := Some 200\<rparr>]\<rparr>"
  have ok: "insert_message ?e ?i example_db = Inr ?d'"
    by (simp add: example_db_eq insert_message_def row_defs check_defs Let_def
        update_conversation_last_message_def example_conversation_def)
  have bad: "insert_message ?e ?bad example_db = Inl ForeignKeyViolation"
    by (simp add: example_db_eq insert_message_def row_defs check_defs Let_def)
  note T = message_insert_stamps_conversation[of ?e ?i example_db]
  note B = message_insert_stamps_conversation[of ?e ?bad example_db]
  from T ok have run: "run (Insert_message ?e ?i) example_db = ?d'" by simp
  have "list_all (\<lambda>c. conversations_last_message_at c = Some 200) (conversations ?d')"
    by simp
  with run have "list_all (\<lambda>c. conversations_last_message_at c = Some 200)
      (conversations (run (Insert_message ?e ?i) example_db))" by simp
  moreover from B bad have "run (Insert_message ?e ?bad) example_db = example_db" by simp
  ultimately show ?thesis using ok bad by blast
qed

text \<open>
  C10, as amended: a conversation inserted without a value for \<^verbatim>\<open>last_message_at\<close>
  stores the instant of the insert there, the value \<^verbatim>\<open>created_at\<close> gets when it is left
  out as well; an insert that gives \<^verbatim>\<open>last_message_at\<close> stores what it gives, which may
  be \<^verbatim>\<open>NULL\<close>, since the column is not declared \<^verbatim>\<open>NOT NULL\<close>.
\<close>

theorem conversation_insert_defaults:
  "(\<forall>d'. insert_conversation e i d = Inr d' \<and> conversations_last_message_at_in i = Omitted \<longrightarrow>
      (\<exists>c. conversations d' = c # conversations d
          \<and> conversations_last_message_at c = Some (now e)
          \<and> (conversations_created_at_in i = Omitted \<longrightarrow>
                conversations_created_at c = conversations_last_message_at c)))
   \<and> (\<forall>d' v. insert_conversation e i d = Inr d' \<and> conversations_last_message_at_in i = Given v \<longrightarrow>
      (\<exists>c. conversations d' = c # conversations d \<and> conversations_last_message_at c = v))"
  by (auto simp: insert_conversation_def conversations_new_row_def Let_def split: if_splits)

theorem conversation_insert_defaults_witness:
  "insert_conversation \<lparr>now = 300, gen_random_uuid = 51\<rparr>
        \<lparr>conversations_id_in = None, conversations_user1_id_in = 1, conversations_user2_id_in = 3,
         conversations_last_message_at_in = Omitted, conversations_created_at_in = Omitted\<rparr>
        example_db
     = Inr (example_db\<lparr>conversations :=
         \<lparr>conversations_id = 51, conversations_user1_id = 1, conversations_user2_id = 3,
          conversations_last_message_at = Some 300, conversations_created_at = Some 300\<rparr>
         # conversations example_db\<rparr>)
   \<and> insert_conversation \<lparr>now = 300, gen_random_uuid = 51\<rparr>
        \<lparr>conversations_id_in = None, conversations_user1_id_in = 1, conversations_user2_id_in = 3,
         conversations_last_message_at_in = Given None, conversations_created_at_in = Omitted\<rparr>
        example_db
     = Inr (example_db\<lparr>conversations :=
         \<lparr>conversations_id = 51, conversations_user1_id = 1, conversations_user2_id = 3,
          conversations_last_message_at = None, conversations_created_at = Some 300\<rparr>
         # conversations example_db\<rparr>)"
proof -
  let ?e = "\<lparr>now = 300, gen_random_uuid = 51\<rparr>"
  let ?i = "\<lparr>conversations_id_in = None, conversations_user1_id_in = 1, conversations_user2_id_in = 3,
         conversations_last_message_at_in = Omitted, conversations_created_at_in = Omitted\<rparr>"
  let ?n = "\<lparr>conversations_id_in = None, conversations_user1_id_in = 1, conversations_user2_id_in = 3,
         conversations_last_message_at_in = Given None, conversations_created_at_in = Omitted\<rparr>"
  have ok: "\<exists>d'. insert_conversation ?e ?i example_db = Inr d'"
    "\<exists>d'. insert_conversation ?e ?n example_db = Inr d'"
    by (simp_all add: example_db_eq insert_conversation_def row_defs check_defs Let_def)
  from conversation_insert_defaults[of ?e ?i example_db] ok(1)
  have 1: "insert_conversation ?e ?i example_db
     = Inr (example_db\<lparr>conversations :=
         \<lparr>conversations_id = 51, conversations_user1_id = 1, conversations_user2_id = 3,
          conversations_last_message_at = Some 300, conversations_created_at = Some 300\<rparr>
         # conversations example_db\<rparr>)"
    by (simp add: example_db_eq insert_conversation_def row_defs check_defs Let_def)
  from conversation_insert_defaults[of ?e ?n example_db] ok(2)
  have 2: "insert_conversation ?e ?n example_db
     = Inr (example_db\<lparr>conversations :=
         \<lparr>conversations_id = 51, conversations_user1_id = 1, conversations_user2_id = 3,
          conversations_last_message_at = None, conversations_created_at = Some 300\<rparr>
         # conversations example_db\<rparr>)"
    by (simp add: example_db_eq insert_conversation_def row_defs check_defs Let_def)
  from 1 2 show ?thesis by blast
qed

text \<open>
  The claim C10 as first stated, that every conversation has a \<^verbatim>\<open>last_message_at\<close> from
  its creation on, fails: two accounts, their profiles, and a conversation inserted with
  \<^verbatim>\<open>last_message_at\<close> given as \<^verbatim>\<open>NULL\<close> leave one conversation, whose
  \<^verbatim>\<open>last_message_at\<close> is \<^verbatim>\<open>NULL\<close>.
\<close>

theorem null_last_message_at_counterexample:
  "map conversations_last_message_at
     (conversations (run_all null_last_message_at_statements empty_db)) = [None]"
  unfolding null_last_message_at_statements_def run_all_def
  by (simp add: run_def insert_defs row_defs check_defs example_profile_def empty_db_def Let_def)

section \<open>Usernames\<close>

lemma username_char_iff:
  "username_char c \<longleftrightarrow>
     c \<in> set (text_of ''abcdefghijklmnopqrstuvwxyzABCDEFGHIJKLMNOPQRSTUVWXYZ0123456789_'')"
  unfolding username_char_def text_of_def by (simp, arith)

lemma space_not_username_char: "\<not> username_char (of_char CHR '' '')"
  by (simp add: username_char_def)

lemma space_rejected: "of_char CHR '' '' \<in> set t \<Longrightarrow> \<not> username_format t"
  using space_not_username_char by (auto simp: username_format_def list_all_iff)

text \<open>
  C8: writing a profile with the username \<^verbatim>\<open>ab\<close> is rejected, with \<^verbatim>\<open>abc\<close> it passes
  the checks (and is stored when the key and the name are free), and with a username
  that contains a space it is rejected, on insert and on update alike; in every
  reachable state each stored username has 3 to 30 characters, all of them letters a-z
  or A-Z, digits or underscores.
\<close>

theorem username_enforced_at_write:
  "insert_profile e (i\<lparr>profiles_username_in := text_of ''ab''\<rparr>) d = Inl CheckViolation
   \<and> insert_profile e (i\<lparr>profiles_username_in := text_of ''abc''\<rparr>) d \<noteq> Inl CheckViolation
   \<and> (profiles_id_in i \<in> set (auth_users d)
        \<and> profiles_id_in i \<notin> set (map profiles_id (profiles d))
        \<and> text_of ''abc'' \<notin> set (map profiles_username (profiles d)) \<longrightarrow>
      insert_profile e (i\<lparr>profiles_username_in := text_of ''abc''\<rparr>) d =
        Inr (d\<lparr>profiles := profiles_new_row e (i\<lparr>profiles_username_in := text_of ''abc''\<rparr>)
                               # profiles d\<rparr>))
   \<and> (of_char CHR '' '' \<in> set (profiles_username_in i) \<longrightarrow>
        insert_profile e i d = Inl CheckViolation)
   \<and> (profiles_id r \<in> set (map profiles_id (profiles d))
        \<and> (profiles_username r = text_of ''ab'' \<or> of_char CHR '' '' \<in> set (profiles_username r)) \<longrightarrow>
        update_profile e r d = Inl CheckViolation)
   \<and> (reachable d \<longrightarrow>
        (\<forall>p\<in>set (profiles d).
           3 \<le> char_length (profiles_username p) \<and> char_length (profiles_username p) \<le> 30
         \<and> set (profiles_username p)
             \<subseteq> set (text_of ''abcdefghijklmnopqrstuvwxyzABCDEFGHIJKLMNOPQRSTUVWXYZ0123456789_'')))"
proof (intro conjI impI)
  show "insert_profile e (i\<lparr>profiles_username_in := text_of ''ab''\<rparr>) d = Inl CheckViolation"
    by (simp add: insert_profile_def profiles_new_row_def username_length_def char_length_def
        text_of_def Let_def)
  have abc: "username_length (text_of ''abc'')" "username_format (text_of ''abc'')"
    by (simp_all add: username_length_def username_format_def username_char_def char_length_def
        text_of_def)
  then show "insert_profile e (i\<lparr>profiles_username_in := text_of ''abc''\<rparr>) d \<noteq> Inl CheckViolation"
    by (simp add: insert_profile_def profiles_new_row_def Let_def)
  show "insert_profile e (i\<lparr>profiles_username_in := text_of ''abc''\<rparr>) d =
        Inr (d\<lparr>profiles := profiles_new_row e (i\<lparr>profiles_username_in := text_of ''abc''\<rparr>)
                               # profiles d\<rparr>)"
    if "profiles_id_in i \<in> set (auth_users d)
        \<and> profiles_id_in i \<notin> set (map profiles_id (profiles d))
        \<and> text_of ''abc'' \<notin> set (map profiles_username (profiles d))"
    using that abc by (simp add: insert_profile_def profiles_new_row_def Let_def)
  show "insert_profile e i d = Inl CheckViolation"
    if "of_char CHR '' '' \<in> set (profiles_username_in i)"
    using space_rejected[OF that] by (simp add: insert_profile_def profiles_new_row_def Let_def)
  show "update_profile e r d = Inl CheckViolation"
    if h: "profiles_id r \<in> set (map profiles_id (profiles d))
        \<and> (profiles_username r = text_of ''ab'' \<or> of_char CHR '' '' \<in> set (profiles_username r))"
  proof -
    from h obtain old where "find (\<lambda>p. profiles_id p = profiles_id r) (profiles d) = Some old"
      by (cases "find (\<lambda>p. profiles_id p = profiles_id r) (profiles d)") (auto simp: find_None_iff)
    moreover from h have "\<not> (username_length (profiles_username r) \<and> username_format (profiles_username r))"
      using space_rejected[of "profiles_username r"]
      by (auto simp: username_length_def char_length_def text_of_def)
    ultimately show ?thesis
      by (simp add: update_profile_def update_updated_at_column_profiles_def Let_def)
  qed
  show "\<forall>p\<in>set (profiles d).
           3 \<le> char_length (profiles_username p) \<and> char_length (profiles_username p) \<le> 30
         \<and> set (profiles_username p)
             \<subseteq> set (text_of ''abcdefghijklmnopqrstuvwxyzABCDEFGHIJKLMNOPQRSTUVWXYZ0123456789_'')"
    if "reachable d"
  proof
    fix p assume "p \<in> set (profiles d)"
    with reachable_profiles[OF that]
    have "username_length (profiles_username p)" "username_format (profiles_username p)" by auto
    then show "3 \<le> char_length (profiles_username p) \<and> char_length (profiles_username p) \<le> 30
         \<and> set (profiles_username p)
             \<subseteq> set (text_of ''abcdefghijklmnopqrstuvwxyzABCDEFGHIJKLMNOPQRSTUVWXYZ0123456789_'')"
      using username_char_iff by (auto simp: username_length_def username_format_def list_all_iff)
  qed
qed

theorem username_enforced_at_write_witness:
  "insert_profile \<lparr>now = 300, gen_random_uuid = 0\<rparr> (example_profile 4 ''ab'') example_db
     = Inl CheckViolation
   \<and> insert_profile \<lparr>now = 300, gen_random_uuid = 0\<rparr> (example_profile 4 ''abc'') example_db
     = Inr (example_db\<lparr>profiles :=
         profiles_new_row \<lparr>now = 300, gen_random_uuid = 0\<rparr> (example_profile 4 ''abc'')
           # profiles example_db\<rparr>)
   \<and> insert_profile \<lparr>now = 300, gen_random_uuid = 0\<rparr> (example_profile 4 ''a bc'') example_db
     = Inl CheckViolation
   \<and> update_profile \<lparr>now = 300, gen_random_uuid = 0\<rparr>
        (profiles_new_row \<lparr>now = 100, gen_random_uuid = 0\<rparr> (example_profile 1 ''al ice''))
        example_db = Inl CheckViolation
   \<and> reachable example_db
   \<and> list_all (\<lambda>p. 3 \<le> char_length (profiles_username p) \<and> char_length (profiles_username p) \<le> 30
         \<and> set (profiles_username p)
             \<subseteq> set (text_of ''abcdefghijklmnopqrstuvwxyzABCDEFGHIJKLMNOPQRSTUVWXYZ0123456789_''))
       (profiles example_db)"
proof -
  let ?e = "\<lparr>now = 300, gen_random_uuid = 0\<rparr>"
  let ?r = "profiles_new_row \<lparr>now = 100, gen_random_uuid = 0\<rparr> (example_profile 1 ''al ice'')"
  have i: "(example_profile 4 ''a bc'')\<lparr>profiles_username_in := text_of ''ab''\<rparr> = example_profile 4 ''ab''"
    "(example_profile 4 ''a bc'')\<lparr>profiles_username_in := text_of ''abc''\<rparr> = example_profile 4 ''abc''"
    by (simp_all add: example_profile_def)
  have h: "profiles_id_in (example_profile 4 ''a bc'') \<in> set (auth_users example_db)
        \<and> profiles_id_in (example_profile 4 ''a bc'') \<notin> set (map profiles_id (profiles example_db))
        \<and> text_of ''abc'' \<notin> set (map profiles_username (profiles example_db))"
    by (simp add: example_db_eq example_profile_def text_of_def)
  have sp: "of_char CHR '' '' \<in> set (profiles_username_in (example_profile 4 ''a bc''))"
    by (simp add: example_profile_def text_of_def)
  have up: "profiles_id ?r \<in> set (map profiles_id (profiles example_db))
        \<and> (profiles_username ?r = text_of ''ab'' \<or> of_char CHR '' '' \<in> set (profiles_username ?r))"
    by (simp add: example_db_eq example_profile_def text_of_def profiles_new_row_def)
  note T = username_enforced_at_write[of ?e "example_profile 4 ''a bc''" example_db ?r]
  from T h sp up example_db_reachable show ?thesis
    unfolding i list_all_iff by blast
qed

end
